theory Spec2Isabelle
  imports Complex_Main "HOL-Library.AList" "HOL-Library.Sublist"
begin

section \<open>JavaScript values used by the sources\<close>

text \<open>
  Strings are lists of characters. The character classes of the regular expressions in
  the sources (\<^verbatim>\<open>\w\<close>, \<^verbatim>\<open>\s\<close>, \<^verbatim>\<open>[a-z0-9-]\<close>) and \<^verbatim>\<open>toLowerCase\<close> are
  modelled on ASCII: a character outside ASCII is neither a word character nor white
  space, and has no lower-case form of its own.

  A value that may be \<^verbatim>\<open>undefined\<close> or \<^verbatim>\<open>null\<close> is an \<open>option\<close>. A string is falsy
  when it is absent or empty.
\<close>

definition truthy :: "string option \<Rightarrow> bool" where
  "truthy v = (case v of None \<Rightarrow> False | Some s \<Rightarrow> s \<noteq> [])"

text \<open>\<^verbatim>\<open>a || b\<close> on a possibly absent string \<open>a\<close> and a string literal \<open>b\<close>.\<close>

definition or_else :: "string option \<Rightarrow> string \<Rightarrow> string" where
  "or_else a b = (case a of None \<Rightarrow> b | Some s \<Rightarrow> if s = [] then b else s)"

text \<open>A thrown value; \<open>message\<close> is its \<^verbatim>\<open>.message\<close> property, absent on a non-Error.\<close>

datatype js_error = JsError (message: "string option")

text \<open>
  The state of a promise when nothing more can happen to it: resolved with a value,
  rejected with a thrown value, or pending for ever.
\<close>

datatype 'a promise = Resolved 'a | Rejected js_error | Pending

text \<open>Decimal rendering of a non-negative integer, as a template literal prints it.\<close>

definition digit_char :: "nat \<Rightarrow> char" where
  "digit_char d = ''0123456789'' ! d"

function string_of_nat :: "nat \<Rightarrow> string" where
  "string_of_nat n =
     (if n < 10 then [digit_char n] else string_of_nat (n div 10) @ [digit_char (n mod 10)])"
  by pat_completeness auto
termination
  by (relation "measure id") auto

declare string_of_nat.simps [simp del]

section \<open>SocialUtils: the social write and read helpers\<close>

subsection \<open>Operations, the signing agent and results\<close>

text \<open>
  A value handed to \<^verbatim>\<open>JSON.stringify\<close>, kept as the value and not as its text.
\<close>

datatype json = JStr string | JArr "json list" | JObj "(string \<times> json) list"

text \<open>
  The operation tuples built by the sources.
  \<open>VoteOp voter author permlink weight\<close> is
  \<^verbatim>\<open>['vote', {voter, author, permlink, weight}]\<close>;
  \<open>CommentOp parent_author parent_permlink author permlink title body json_metadata\<close>
  is \<^verbatim>\<open>['comment', {...}]\<close>;
  \<open>CustomJsonOp required_auths required_posting_auths id json\<close> is
  \<^verbatim>\<open>['custom_json', {...}]\<close>.
\<close>

datatype operation =
    VoteOp string string string int
  | CommentOp string string string string string string json
  | CustomJsonOp "string list" "string list" string json

text \<open>
  The response object the agent passes to the callback, and what the agent does with a
  request: call the callback once, never call it, or throw from the request function.
\<close>

record response =
  r_success :: bool
  r_message :: "string option"

datatype agent = Callback response | NoCallback | Throws js_error

text \<open>
  What the code does to the outside world.
  \<open>SetTimeout ms\<close> is a timer armed with \<^verbatim>\<open>setTimeout\<close>, and \<open>ClearTimeout id\<close> is
  \<^verbatim>\<open>clearTimeout(id)\<close>;
  \<open>RequestBroadcast account ops key\<close> is
  \<^verbatim>\<open>window.hive_keychain.requestBroadcast(account, ops, key, callback)\<close>;
  \<open>AgentRequest method strings json_metadata\<close> is the agent's \<^verbatim>\<open>requestPost\<close> or
  \<^verbatim>\<open>requestComment\<close>, with its string arguments in the order the call site writes
  them;
  \<open>DatabaseCall method params\<close> is \<^verbatim>\<open>client.database.call(method, params)\<close>;
  \<open>Prompt\<close> is the browser's \<^verbatim>\<open>prompt\<close> dialogue;
  \<open>SendOperations ops key\<close> is \<^verbatim>\<open>client.broadcast.sendOperations(ops, key)\<close>, the key
  object being \<open>PrivateKey s\<close> for the string \<open>s\<close> it was parsed from;
  \<open>Alert text\<close> is the browser's \<^verbatim>\<open>alert\<close>.
  Console output is not modelled.
\<close>

datatype private_key = PrivateKey string

datatype effect =
    SetTimeout nat
  | ClearTimeout nat
  | RequestBroadcast string "operation list" string
  | AgentRequest string "string list" json
  | DatabaseCall string "string option list"
  | Prompt
  | SendOperations "operation list" private_key
  | Alert string

text \<open>The result object: a field that the object literal leaves out is \<open>None\<close>.\<close>

record result =
  success :: bool
  error :: "string option"
  simulated :: "bool option"
  permlink :: "string option"

definition failure :: "string \<Rightarrow> result" where
  "failure msg = \<lparr>success = False, error = Some msg, simulated = None, permlink = None\<rparr>"

text \<open>
  The promise executor shared by the four write helpers: the request goes to the agent,
  and the callback resolves the promise. A throw inside the executor rejects the promise.
  \<open>extra\<close> is the permlink that \<^verbatim>\<open>commentOnPost\<close> adds to its success result.
\<close>

definition keychain_promise :: "agent \<Rightarrow> string option \<Rightarrow> string \<Rightarrow> result promise" where
  "keychain_promise kc extra fallback =
     (case kc of
        Callback response \<Rightarrow>
          if r_success response
          then Resolved \<lparr>success = True, error = None, simulated = None, permlink = extra\<rparr>
          else Resolved (failure (or_else (r_message response) fallback))
      | NoCallback \<Rightarrow> Pending
      | Throws e \<Rightarrow> Rejected e)"

subsection \<open>likePost\<close>

text \<open>
  \<open>client\<close> is only tested for presence. \<open>weight\<close> is absent when the caller leaves
  the argument out, and then defaults to 10000. The helper returns the effects it
  performed and the final state of the promise it returned. The \<^verbatim>\<open>try\<close> body is a
  sum: \<open>Inl\<close> is a throw, which the \<^verbatim>\<open>catch\<close> turns into a failure result; the
  promise handed to \<^verbatim>\<open>return\<close> is not awaited, so its rejection is not caught.
  Past the guard the user name is present, and \<open>the\<close> reads it.
\<close>

definition likePost_try ::
  "string \<Rightarrow> string \<Rightarrow> string \<Rightarrow> int option \<Rightarrow> agent option
    \<Rightarrow> js_error + effect list \<times> result promise" where
  "likePost_try username postAuthor postPermlink weight hive_keychain =
     (let voteOp = VoteOp username postAuthor postPermlink
                     (case weight of None \<Rightarrow> 10000 | Some w \<Rightarrow> w)
      in case hive_keychain of
           Some kc \<Rightarrow>
             Inr ([RequestBroadcast username [voteOp] ''posting''],
                  keychain_promise kc None ''Failed to vote with Keychain'')
         | None \<Rightarrow>
             Inr ([SetTimeout 500],
                  Resolved \<lparr>success = True, error = None, simulated = Some True,
                            permlink = None\<rparr>))"

definition likePost ::
  "'c option \<Rightarrow> string option \<Rightarrow> string \<Rightarrow> string \<Rightarrow> int option \<Rightarrow> agent option
    \<Rightarrow> effect list \<times> result promise" where
  "likePost client username postAuthor postPermlink weight hive_keychain =
     (if client = None \<or> \<not> truthy username
      then ([], Resolved (failure ''Client or username not provided''))
      else case likePost_try (the username) postAuthor postPermlink weight hive_keychain of
             Inl e \<Rightarrow> ([], Resolved (failure (or_else (message e) ''Failed to like post'')))
           | Inr r \<Rightarrow> r)"

subsection \<open>commentOnPost\<close>

text \<open>
  \<^verbatim>\<open>parentPermlink.replace(/[^a-z0-9-]/g, '')\<close> keeps lower-case letters, digits and
  hyphens. On an absent \<^verbatim>\<open>parentPermlink\<close> the property access throws a TypeError,
  whose message (the text is the engine's own, and never empty) is a constant here.
  \<open>now\<close> is \<^verbatim>\<open>Date.now()\<close>. \<open>options\<close> are the pairs spread into the metadata
  after \<^verbatim>\<open>app\<close>, none when the argument is left out.
\<close>

definition permlink_char :: "char \<Rightarrow> bool" where
  "permlink_char c = (c \<in> set ''abcdefghijklmnopqrstuvwxyz0123456789-'')"

definition replace_of_undefined :: js_error where
  "replace_of_undefined =
     JsError (Some ''Cannot read properties of undefined (reading replace)'')"

definition reply_permlink :: "string \<Rightarrow> nat \<Rightarrow> string" where
  "reply_permlink parentPermlink now =
     ''re-'' @ filter permlink_char parentPermlink @ ''-'' @ string_of_nat now"

definition commentOnPost_try ::
  "string \<Rightarrow> string \<Rightarrow> string option \<Rightarrow> string \<Rightarrow> (string \<times> json) list \<Rightarrow> nat
    \<Rightarrow> agent option \<Rightarrow> js_error + effect list \<times> result promise" where
  "commentOnPost_try username parentAuthor parentPermlink body options now hive_keychain =
     (case parentPermlink of
        None \<Rightarrow> Inl replace_of_undefined
      | Some parent \<Rightarrow>
          (let plink = reply_permlink parent now;
               commentOp = CommentOp parentAuthor parent username plink [] body
                             (JObj ((''app'', JStr ''hivesocial'') # options))
           in case hive_keychain of
                Some kc \<Rightarrow>
                  Inr ([RequestBroadcast username [commentOp] ''posting''],
                       keychain_promise kc (Some plink) ''Failed to comment with Keychain'')
              | None \<Rightarrow>
                  Inr ([SetTimeout 800],
                       Resolved \<lparr>success = True, error = None, simulated = Some True,
                                 permlink = Some plink\<rparr>)))"

definition commentOnPost ::
  "'c option \<Rightarrow> string option \<Rightarrow> string \<Rightarrow> string option \<Rightarrow> string
    \<Rightarrow> (string \<times> json) list \<Rightarrow> nat \<Rightarrow> agent option \<Rightarrow> effect list \<times> result promise" where
  "commentOnPost client username parentAuthor parentPermlink body options now hive_keychain =
     (if client = None \<or> \<not> truthy username
      then ([], Resolved (failure ''Client or username not provided''))
      else case commentOnPost_try (the username) parentAuthor parentPermlink body options now
                  hive_keychain of
             Inl e \<Rightarrow> ([], Resolved (failure (or_else (message e) ''Failed to comment on post'')))
           | Inr r \<Rightarrow> r)"

subsection \<open>followUser and unfollowUser\<close>

definition follow_payload :: "string \<Rightarrow> string \<Rightarrow> string list \<Rightarrow> json" where
  "follow_payload follower following what =
     JArr [JStr ''follow'',
           JObj [(''follower'', JStr follower), (''following'', JStr following),
                 (''what'', JArr (map JStr what))]]"

definition followUser_try ::
  "string \<Rightarrow> string \<Rightarrow> agent option \<Rightarrow> js_error + effect list \<times> result promise" where
  "followUser_try follower following hive_keychain =
     (let followOp = CustomJsonOp [] [follower] ''follow''
                       (follow_payload follower following [''blog''])
      in case hive_keychain of
           Some kc \<Rightarrow>
             Inr ([RequestBroadcast follower [followOp] ''posting''],
                  keychain_promise kc None ''Failed to follow with Keychain'')
         | None \<Rightarrow>
             Inr ([SetTimeout 600],
                  Resolved \<lparr>success = True, error = None, simulated = Some True,
                            permlink = None\<rparr>))"

definition followUser ::
  "'c option \<Rightarrow> string option \<Rightarrow> string \<Rightarrow> agent option \<Rightarrow> effect list \<times> result promise" where
  "followUser client follower following hive_keychain =
     (if client = None \<or> \<not> truthy follower
      then ([], Resolved (failure ''Client or follower not provided''))
      else case followUser_try (the follower) following hive_keychain of
             Inl e \<Rightarrow> ([], Resolved (failure (or_else (message e) ''Failed to follow user'')))
           | Inr r \<Rightarrow> r)"

definition unfollowUser_try ::
  "string \<Rightarrow> string \<Rightarrow> agent option \<Rightarrow> js_error + effect list \<times> result promise" where
  "unfollowUser_try follower following hive_keychain =
     (let unfollowOp = CustomJsonOp [] [follower] ''follow''
                         (follow_payload follower following [])
      in case hive_keychain of
           Some kc \<Rightarrow>
             Inr ([RequestBroadcast follower [unfollowOp] ''posting''],
                  keychain_promise kc None ''Failed to unfollow with Keychain'')
         | None \<Rightarrow>
             Inr ([SetTimeout 600],
                  Resolved \<lparr>success = True, error = None, simulated = Some True,
                            permlink = None\<rparr>))"

definition unfollowUser ::
  "'c option \<Rightarrow> string option \<Rightarrow> string \<Rightarrow> agent option \<Rightarrow> effect list \<times> result promise" where
  "unfollowUser client follower following hive_keychain =
     (if client = None \<or> \<not> truthy follower
      then ([], Resolved (failure ''Client or follower not provided''))
      else case unfollowUser_try (the follower) following hive_keychain of
             Inl e \<Rightarrow> ([], Resolved (failure (or_else (message e) ''Failed to unfollow user'')))
           | Inr r \<Rightarrow> r)"

subsection \<open>checkIfFollowing\<close>

text \<open>
  Here the client is used: it is the function \<^verbatim>\<open>client.database.call\<close>, which either
  throws (\<open>Inl\<close>) or returns the ledger's answer. The call is awaited inside the
  \<^verbatim>\<open>try\<close>, so a throw is caught. \<open>rnd\<close> is the value of \<^verbatim>\<open>Math.random()\<close>.
\<close>

text \<open>
  The result object of \<^verbatim>\<open>checkIfFollowing\<close>, its fields \<^verbatim>\<open>success\<close>, \<^verbatim>\<open>error\<close>,
  \<^verbatim>\<open>isFollowing\<close> and \<^verbatim>\<open>followCount\<close> prefixed to keep them apart from the other
  records.
\<close>

record 'p follow_status =
  fs_success :: bool
  fs_error :: "string option"
  fs_isFollowing :: "bool option"
  fs_followCount :: "'p option"

definition checkIfFollowing ::
  "(string \<Rightarrow> string option list \<Rightarrow> js_error + 'p) option \<Rightarrow> string option \<Rightarrow> string \<Rightarrow> real
    \<Rightarrow> effect list \<times> 'p follow_status promise" where
  "checkIfFollowing client follower following rnd =
     (case client of
        None \<Rightarrow>
          ([], Resolved \<lparr>fs_success = False, fs_error = Some ''Client not provided'',
                          fs_isFollowing = None, fs_followCount = None\<rparr>)
      | Some call \<Rightarrow>
          ([DatabaseCall ''get_follow_count'' [follower]],
           case call ''get_follow_count'' [follower] of
             Inl e \<Rightarrow>
               Resolved \<lparr>fs_success = False,
                         fs_error = Some (or_else (message e) ''Failed to check follow status''),
                         fs_isFollowing = None, fs_followCount = None\<rparr>
           | Inr count \<Rightarrow>
               Resolved \<lparr>fs_success = True, fs_error = None,
                         fs_isFollowing = Some (rnd > 0.5), fs_followCount = Some count\<rparr>))"

section \<open>The components that call the helpers\<close>

text \<open>
  An event handler is asynchronous: it runs to its first \<^verbatim>\<open>await\<close> (or to the agent
  request), and the rest runs when the promise settles or the callback fires. The model
  of a handler returns the component state at both moments: \<open>during\<close> is the state while
  the submission is outstanding, \<open>after\<close> the state once it has settled, and \<open>None\<close>
  when it never settles. A handler that returns at once has both equal.
\<close>

record 'st run =
  during :: 'st
  after :: "'st option"

definition returned :: "'st \<Rightarrow> 'st run" where
  "returned s = \<lparr>during = s, after = Some s\<rparr>"

text \<open>A possibly absent string inside a concatenation or a template literal.\<close>

definition str_of :: "string option \<Rightarrow> string" where
  "str_of v = (case v of None \<Rightarrow> ''undefined'' | Some s \<Rightarrow> s)"

text \<open>
  The signed-in user as these two components read it: an object whose \<^verbatim>\<open>name\<close> is the
  account. (Where the context holds a bare string, its \<^verbatim>\<open>name\<close> is \<^verbatim>\<open>undefined\<close>.)
\<close>

datatype hive_user = User (name: "string option")

subsection \<open>Post: handleVote\<close>

record post_state =
  isVoting :: bool
  voteError :: string
  hasVoted :: bool

definition handleVote ::
  "'c option \<Rightarrow> hive_user option \<Rightarrow> bool \<Rightarrow> string \<Rightarrow> string \<Rightarrow> agent option \<Rightarrow> post_state
    \<Rightarrow> effect list \<times> post_state run" where
  "handleVote client user isKeychain post_author post_permlink hive_keychain s =
     (if user = None \<or> \<not> isKeychain
      then ([Alert ''Please login with Hive Keychain to vote''], returned s)
      else
        (let s1 = s\<lparr>isVoting := True, voteError := []\<rparr>;
             (effects, p) =
               likePost client (name (the user)) post_author post_permlink None hive_keychain
         in (effects,
             \<lparr>during = s1,
              after =
                (case p of
                   Resolved result \<Rightarrow>
                     Some ((if success result then s1\<lparr>hasVoted := True\<rparr>
                            else s1\<lparr>voteError := or_else (error result) ''Failed to vote''\<rparr>)
                           \<lparr>isVoting := False\<rparr>)
                 | Rejected err \<Rightarrow>
                     Some (s1\<lparr>voteError := ''Error voting: '' @ str_of (message err),
                              isVoting := False\<rparr>)
                 | Pending \<Rightarrow> None)\<rparr>)))"

subsection \<open>FollowButton: checkFollowStatus and handleFollowToggle\<close>

text \<open>The state variable \<^verbatim>\<open>error\<close> of the component is \<open>followError\<close> here.\<close>

record follow_button =
  isFollowing :: bool
  loading :: bool
  processing :: bool
  followError :: string

text \<open>
  \<^verbatim>\<open>user.name\<close> on an absent user throws inside the \<^verbatim>\<open>try\<close>; the \<^verbatim>\<open>catch\<close> only
  logs. An \<^verbatim>\<open>isFollowing\<close> missing from a success result would be stored as a falsy
  value.
\<close>

definition checkFollowStatus ::
  "(string \<Rightarrow> string option list \<Rightarrow> js_error + 'p) option \<Rightarrow> hive_user option \<Rightarrow> string \<Rightarrow> real
    \<Rightarrow> follow_button \<Rightarrow> effect list \<times> follow_button run" where
  "checkFollowStatus client user username rnd s =
     (let s1 = s\<lparr>loading := True, followError := []\<rparr>
      in case user of
           None \<Rightarrow> ([], \<lparr>during = s1, after = Some (s1\<lparr>loading := False\<rparr>)\<rparr>)
         | Some u \<Rightarrow>
             (let (effects, p) = checkIfFollowing client (name u) username rnd
              in (effects,
                  \<lparr>during = s1,
                   after =
                     (case p of
                        Resolved result \<Rightarrow>
                          Some ((if fs_success result
                                 then s1\<lparr>isFollowing :=
                                           (case fs_isFollowing result of
                                              None \<Rightarrow> False | Some b \<Rightarrow> b)\<rparr>
                                 else s1)
                                \<lparr>loading := False\<rparr>)
                      | Rejected err \<Rightarrow> Some (s1\<lparr>loading := False\<rparr>)
                      | Pending \<Rightarrow> None)\<rparr>)))"

text \<open>
  The handler closes over the \<^verbatim>\<open>isFollowing\<close> of the render it was created in, which
  is the state it starts from.
\<close>

definition handleFollowToggle ::
  "'c option \<Rightarrow> hive_user option \<Rightarrow> string \<Rightarrow> agent option \<Rightarrow> follow_button
    \<Rightarrow> effect list \<times> follow_button run" where
  "handleFollowToggle client user username hive_keychain s =
     (if user = None
      then ([Alert ''Please login to follow users''], returned s)
      else
        (let s1 = s\<lparr>processing := True, followError := []\<rparr>;
             (effects, p) =
               (if isFollowing s
                then unfollowUser client (name (the user)) username hive_keychain
                else followUser client (name (the user)) username hive_keychain)
         in (effects,
             \<lparr>during = s1,
              after =
                (case p of
                   Resolved result \<Rightarrow>
                     Some ((if success result then s1\<lparr>isFollowing := \<not> isFollowing s\<rparr>
                            else s1\<lparr>followError :=
                                      or_else (error result)
                                        (''Failed to ''
                                         @ (if isFollowing s then ''unfollow'' else ''follow'')
                                         @ '' user'')\<rparr>)
                           \<lparr>processing := False\<rparr>)
                 | Rejected err \<Rightarrow>
                     Some (s1\<lparr>followError :=
                                ''Error ''
                                @ (if isFollowing s then ''unfollowing'' else ''following'')
                                @ '' user: '' @ str_of (message err),
                              processing := False\<rparr>)
                 | Pending \<Rightarrow> None)\<rparr>)))"

section \<open>CreatePost\<close>

subsection \<open>String methods\<close>

text \<open>
  \<^verbatim>\<open>\s\<close> and \<^verbatim>\<open>trim\<close> on ASCII: space, tab, line feed, vertical tab, form feed and
  carriage return. \<^verbatim>\<open>\w\<close> is a letter, a digit or the underscore.
\<close>

definition is_space :: "char \<Rightarrow> bool" where
  "is_space c = (c \<in> set [CHR '' '', CHR 0x09, CHR 0x0A, CHR 0x0B, CHR 0x0C, CHR 0x0D])"

definition is_alnum :: "char \<Rightarrow> bool" where
  "is_alnum c =
     (c \<in> set ''abcdefghijklmnopqrstuvwxyzABCDEFGHIJKLMNOPQRSTUVWXYZ0123456789'')"

definition is_word :: "char \<Rightarrow> bool" where
  "is_word c = (is_alnum c \<or> c = CHR ''_'')"

definition lower_char :: "char \<Rightarrow> char" where
  "lower_char c =
     (case map_of (zip ''ABCDEFGHIJKLMNOPQRSTUVWXYZ'' ''abcdefghijklmnopqrstuvwxyz'') c of
        None \<Rightarrow> c
      | Some l \<Rightarrow> l)"

definition toLowerCase :: "string \<Rightarrow> string" where
  "toLowerCase s = map lower_char s"

definition trim :: "string \<Rightarrow> string" where
  "trim s = rev (dropWhile is_space (rev (dropWhile is_space s)))"

text \<open>
  \<^verbatim>\<open>s.split(sep)\<close> for a separator of one character: the pieces between the
  separators, empty pieces included, so that the empty string gives one empty piece.
\<close>

fun split :: "char \<Rightarrow> string \<Rightarrow> string list" where
  "split sep [] = [[]]"
| "split sep (c # cs) =
     (if c = sep then [] # split sep cs
      else case split sep cs of
             [] \<Rightarrow> [[c]]
           | w # ws \<Rightarrow> (c # w) # ws)"

text \<open>
  \<^verbatim>\<open>s.replace(/\s+/g, '-')\<close>: every maximal run of white space becomes one hyphen.
  The flag says that the character before was white space.
\<close>

fun hyphenate :: "bool \<Rightarrow> string \<Rightarrow> string" where
  "hyphenate in_run [] = []"
| "hyphenate in_run (c # cs) =
     (if is_space c
      then (if in_run then hyphenate True cs else CHR ''-'' # hyphenate True cs)
      else c # hyphenate False cs)"

subsection \<open>generatePermlink\<close>

text \<open>
  The helper closes over the title. \<open>isoNow\<close> is \<^verbatim>\<open>new Date().toISOString()\<close> and
  \<open>rand36\<close> is \<^verbatim>\<open>Math.random().toString(36)\<close>; \<^verbatim>\<open>substring(a, b)\<close> with
  \<open>a \<le> b\<close> is \<open>take (b - a) (drop a s)\<close>.
\<close>

definition generatePermlink :: "string \<Rightarrow> string \<Rightarrow> string \<Rightarrow> string" where
  "generatePermlink title_text isoNow rand36 =
     (let timeString = toLowerCase (filter is_alnum isoNow);
          randomString = take 6 (drop 2 rand36);
          basePermlink =
            take 50 (hyphenate False
                       (filter (\<lambda>c. is_word c \<or> is_space c) (toLowerCase title_text)))
      in basePermlink @ ''-'' @ take 8 timeString @ ''-'' @ randomString)"

subsection \<open>The form state\<close>

text \<open>
  The state variables of the component that the submit handlers read or write; the
  state variable \<^verbatim>\<open>error\<close> is \<open>submitError\<close> here. The debug text is left out.
\<close>

record create_post =
  title :: string
  body :: string
  tags :: string
  imageUrl :: string
  isSubmitting :: bool
  submitError :: string
  successMessage :: string
  postingMethod :: string
  timeoutId :: "nat option"

definition tagArray_of :: "string \<Rightarrow> string list" where
  "tagArray_of tag_text =
     filter (\<lambda>tag. tag \<noteq> []) (map trim (split (CHR '' '') (toLowerCase tag_text)))"

definition image_list :: "string \<Rightarrow> json" where
  "image_list url = JArr (if url \<noteq> [] then [JStr url] else [])"

definition jsonMetadata :: "string list \<Rightarrow> string \<Rightarrow> json" where
  "jsonMetadata tagArray url =
     JObj [(''tags'', JArr (map JStr tagArray)),
           (''app'', JStr ''hivesocial/1.0.0''),
           (''format'', JStr ''markdown''),
           (''image'', image_list url)]"

text \<open>\<^verbatim>\<open>tagArray[0] || 'hive-174695'\<close>.\<close>

definition first_tag :: "string list \<Rightarrow> string" where
  "first_tag tagArray =
     or_else (case tagArray of [] \<Rightarrow> None | t # ts \<Rightarrow> Some t) ''hive-174695''"

definition publish_failed :: "string option \<Rightarrow> string" where
  "publish_failed msg = ''Failed to publish post: '' @ or_else msg ''Unknown error''"

subsection \<open>handleSubmit\<close>

text \<open>
  The branch that posts through the agent: \<^verbatim>\<open>requestPost\<close> and its callback. A throw
  from the request function is caught by the handler's outer \<^verbatim>\<open>catch\<close>.
\<close>

definition submit_keychain ::
  "agent \<Rightarrow> string \<Rightarrow> string \<Rightarrow> string list \<Rightarrow> create_post \<Rightarrow> effect list \<times> create_post run"
  where
  "submit_keychain kc u plink tagArray s1 =
     (let request = AgentRequest ''requestPost''
                      [u, plink, first_tag tagArray, title s1, body s1, ''posting'']
                      (jsonMetadata tagArray (imageUrl s1))
      in case kc of
           Callback response \<Rightarrow>
             if r_success response
             then ([request, SetTimeout 2000],
                   \<lparr>during = s1,
                    after = Some (s1\<lparr>isSubmitting := False,
                                     successMessage := ''Post published successfully!''\<rparr>)\<rparr>)
             else ([request],
                   \<lparr>during = s1,
                    after = Some (s1\<lparr>isSubmitting := False,
                                     submitError := publish_failed (r_message response)\<rparr>)\<rparr>)
         | NoCallback \<Rightarrow> ([request], \<lparr>during = s1, after = None\<rparr>)
         | Throws err \<Rightarrow>
             ([request],
              returned (s1\<lparr>submitError := publish_failed (message err),
                          isSubmitting := False\<rparr>)))"

text \<open>
  The branch that posts with a key typed into a prompt. A client is its
  \<^verbatim>\<open>broadcast.sendOperations\<close>, which throws (\<open>Inl\<close>) or returns the ledger's
  confirmation; \<open>PrivateKey_from\<close> is the library's key parser, which throws on a string
  it does not accept. After a successful broadcast the source leaves \<^verbatim>\<open>isSubmitting\<close>
  set.
\<close>

definition submit_direct ::
  "(operation list \<Rightarrow> private_key \<Rightarrow> js_error + 'r) option
    \<Rightarrow> (operation list \<Rightarrow> private_key \<Rightarrow> js_error + 'r) option
    \<Rightarrow> string option \<Rightarrow> (string \<Rightarrow> js_error + private_key)
    \<Rightarrow> string \<Rightarrow> string \<Rightarrow> string list \<Rightarrow> create_post \<Rightarrow> effect list \<times> create_post run"
  where
  "submit_direct client localClient promptAnswer PrivateKey_from u plink tagArray s1 =
     (case (case client of None \<Rightarrow> localClient | Some c \<Rightarrow> Some c) of
        None \<Rightarrow>
          ([], returned (s1\<lparr>submitError :=
                              ''Hive client not initialized. Please refresh the page.'',
                            isSubmitting := False\<rparr>))
      | Some activeClient \<Rightarrow>
          if \<not> truthy promptAnswer
          then ([Prompt],
                returned (s1\<lparr>submitError := ''Posting key is required to publish a post.'',
                            isSubmitting := False\<rparr>))
          else
            (case PrivateKey_from (the promptAnswer) of
               Inl keyError \<Rightarrow>
                 ([Prompt],
                  returned (s1\<lparr>submitError :=
                                ''Invalid private key format. Please make sure you are using the correct private posting key.'',
                              isSubmitting := False\<rparr>))
             | Inr postingKey \<Rightarrow>
                 (let operations =
                        [CommentOp [] (first_tag tagArray) u plink (title s1) (body s1)
                           (jsonMetadata tagArray (imageUrl s1))]
                  in case activeClient operations postingKey of
                       Inr confirmation \<Rightarrow>
                         ([Prompt, SendOperations operations postingKey, SetTimeout 2000],
                          \<lparr>during = s1,
                           after = Some (s1\<lparr>successMessage :=
                                              ''Post published successfully!''\<rparr>)\<rparr>)
                     | Inl err \<Rightarrow>
                         ([Prompt, SendOperations operations postingKey],
                          \<lparr>during = s1,
                           after = Some (s1\<lparr>submitError := publish_failed (message err),
                                            isSubmitting := False\<rparr>)\<rparr>))))"

text \<open>
  The handler: \<open>user\<close> is the account name in the context, \<open>hive_keychain\<close> the agent
  in the window, \<open>promptAnswer\<close> what the prompt returns.
\<close>

definition handleSubmit ::
  "string option
    \<Rightarrow> (operation list \<Rightarrow> private_key \<Rightarrow> js_error + 'r) option
    \<Rightarrow> (operation list \<Rightarrow> private_key \<Rightarrow> js_error + 'r) option
    \<Rightarrow> agent option \<Rightarrow> string option \<Rightarrow> (string \<Rightarrow> js_error + private_key)
    \<Rightarrow> string \<Rightarrow> string \<Rightarrow> create_post \<Rightarrow> effect list \<times> create_post run"
  where
  "handleSubmit user client localClient hive_keychain promptAnswer PrivateKey_from isoNow rand36 s =
     (let s0 = s\<lparr>submitError := []\<rparr>
      in if \<not> truthy user
         then ([], returned (s0\<lparr>submitError := ''You must be logged in to create a post''\<rparr>))
         else if trim (title s) = []
         then ([], returned (s0\<lparr>submitError := ''Please enter a title''\<rparr>))
         else if trim (body s) = []
         then ([], returned (s0\<lparr>submitError := ''Please enter content for your post''\<rparr>))
         else if trim (tags s) = []
         then ([], returned (s0\<lparr>submitError := ''Please enter at least one tag''\<rparr>))
         else
           (let tagArray = tagArray_of (tags s)
            in if length tagArray = 0
               then ([], returned (s0\<lparr>submitError := ''Please enter at least one valid tag''\<rparr>))
               else
                 (let plink = generatePermlink (title s) isoNow rand36;
                      s1 = s0\<lparr>isSubmitting := True\<rparr>
                  in if postingMethod s = ''keychain'' \<and> hive_keychain \<noteq> None
                     then submit_keychain (the hive_keychain) (the user) plink tagArray s1
                     else if postingMethod s = ''direct''
                     then submit_direct client localClient promptAnswer PrivateKey_from
                            (the user) plink tagArray s1
                     else ([],
                           returned (s1\<lparr>submitError :=
                                         ''No posting method available. Please install Hive Keychain or use direct posting.'',
                                       isSubmitting := False\<rparr>)))))"

subsection \<open>handleDirectPost\<close>

text \<open>
  \<^verbatim>\<open>resetFormState\<close> reads the \<^verbatim>\<open>timeoutId\<close> of the render it was created in, which
  the handler passes on as it found it.
\<close>

definition resetFormState :: "nat option \<Rightarrow> create_post \<Rightarrow> effect list \<times> create_post" where
  "resetFormState closed_timeoutId s =
     (case closed_timeoutId of
        None \<Rightarrow> ([], s\<lparr>isSubmitting := False\<rparr>)
      | Some t \<Rightarrow> ([ClearTimeout t], s\<lparr>isSubmitting := False, timeoutId := None\<rparr>))"

text \<open>
  \<open>directClient\<close> is the \<^verbatim>\<open>sendOperations\<close> of the client the handler creates, \<open>now\<close>
  is \<^verbatim>\<open>Date.now()\<close>, and \<open>timer\<close> is the id that \<^verbatim>\<open>setTimeout\<close> returns for the
  30 second timer. The broadcast is taken to settle before that timer fires.
\<close>

definition handleDirectPost ::
  "string option \<Rightarrow> (operation list \<Rightarrow> private_key \<Rightarrow> js_error + 'r)
    \<Rightarrow> string option \<Rightarrow> (string \<Rightarrow> js_error + private_key) \<Rightarrow> nat \<Rightarrow> nat
    \<Rightarrow> create_post \<Rightarrow> effect list \<times> create_post run" where
  "handleDirectPost user directClient promptAnswer PrivateKey_from now timer s =
     (if \<not> truthy user
      then ([], returned (s\<lparr>submitError := ''You must be logged in to create a post''\<rparr>))
      else if trim (title s) = []
      then ([], returned (s\<lparr>submitError := ''Please enter a title''\<rparr>))
      else if trim (body s) = []
      then ([], returned (s\<lparr>submitError := ''Please enter content for your post''\<rparr>))
      else
        (let (cleared, s0) = resetFormState (timeoutId s) s;
             s1 = s0\<lparr>isSubmitting := True, submitError := [], timeoutId := Some timer\<rparr>;
             armed = cleared @ [SetTimeout 30000, Prompt]
         in if \<not> truthy promptAnswer
            then (let (cleared2, s2) =
                        resetFormState (timeoutId s)
                          (s1\<lparr>submitError := ''Posting key is required to publish a post.''\<rparr>)
                  in (armed @ cleared2, returned s2))
            else
              (case PrivateKey_from (the promptAnswer) of
                 Inl keyError \<Rightarrow>
                   (let (cleared2, s2) =
                          resetFormState (timeoutId s)
                            (s1\<lparr>submitError :=
                                  ''Invalid private key format. Please make sure you are using the correct private posting key.''\<rparr>)
                    in (armed @ cleared2, returned s2))
               | Inr postingKey \<Rightarrow>
                   (let simplePermlink = ''post-'' @ string_of_nat now;
                        operations =
                          [CommentOp [] ''hive-174695'' (the user) simplePermlink
                             (title s) (body s)
                             (jsonMetadata [''hive-174695'', ''hivesocial''] (imageUrl s))]
                    in case directClient operations postingKey of
                         Inr confirmation \<Rightarrow>
                           (armed @ [SendOperations operations postingKey,
                                     ClearTimeout timer, SetTimeout 2000],
                            \<lparr>during = s1,
                             after = Some (s1\<lparr>timeoutId := None,
                                              successMessage := ''Post published successfully!'',
                                              isSubmitting := False\<rparr>)\<rparr>)
                       | Inl err \<Rightarrow>
                           (armed @ [SendOperations operations postingKey, ClearTimeout timer],
                            \<lparr>during = s1,
                             after = Some (s1\<lparr>timeoutId := None,
                                              submitError := publish_failed (message err),
                                              isSubmitting := False\<rparr>)\<rparr>)))))"

section \<open>PostView: handleComment\<close>

text \<open>
  A comment as the page lists it; the fields of the object literal, prefixed.
\<close>

record comment =
  c_author :: string
  c_permlink :: string
  c_body :: string
  c_created :: string
  c_net_votes :: int
  c_pending_payout_value :: string

record post_view =
  commentBody :: string
  submittingComment :: bool
  commentError :: string
  comments :: "comment list"

definition requestComment_of_undefined :: js_error where
  "requestComment_of_undefined =
     JsError (Some ''Cannot read properties of undefined (reading requestComment)'')"

text \<open>
  \<open>author\<close> and \<open>plink\<close> are the route parameters of the page, \<open>now\<close> is
  \<^verbatim>\<open>Date.now()\<close> and \<open>isoNow\<close> is \<^verbatim>\<open>new Date().toISOString()\<close> in the callback. The
  handler calls the agent without testing that it is there: on a missing agent the
  property access throws, and the \<^verbatim>\<open>catch\<close> reports it.
\<close>

definition handleComment ::
  "string option \<Rightarrow> bool \<Rightarrow> string \<Rightarrow> string \<Rightarrow> agent option \<Rightarrow> nat \<Rightarrow> string \<Rightarrow> post_view
    \<Rightarrow> effect list \<times> post_view run" where
  "handleComment user isKeychain author plink hive_keychain now isoNow s =
     (if trim (commentBody s) = []
      then ([], returned (s\<lparr>commentError := ''Please enter a comment''\<rparr>))
      else if \<not> truthy user \<or> \<not> isKeychain
      then ([], returned (s\<lparr>commentError := ''Please login with Hive Keychain to comment''\<rparr>))
      else
        (let s1 = s\<lparr>submittingComment := True, commentError := []\<rparr>;
             commentPermlink = reply_permlink plink now;
             jsonMetadata = JObj [(''app'', JStr ''hivesocial/1.0.0''),
                                  (''format'', JStr ''markdown'')];
             request = AgentRequest ''requestComment''
                         [the user, plink, author, commentPermlink, [], commentBody s]
                         jsonMetadata
         in case hive_keychain of
              None \<Rightarrow>
                ([],
                 returned (s1\<lparr>commentError :=
                               ''Comment failed: ''
                               @ or_else (message requestComment_of_undefined)
                                   ''Unknown error'',
                             submittingComment := False\<rparr>))
            | Some (Callback response) \<Rightarrow>
                ([request],
                 \<lparr>during = s1,
                  after =
                    Some (if r_success response
                          then s1\<lparr>submittingComment := False, commentBody := [],
                                  comments :=
                                    \<lparr>c_author = the user, c_permlink = commentPermlink,
                                     c_body = commentBody s, c_created = isoNow,
                                     c_net_votes = 0,
                                     c_pending_payout_value = ''0.000 HBD''\<rparr>
                                    # comments s1\<rparr>
                          else s1\<lparr>submittingComment := False,
                                  commentError :=
                                    ''Comment failed: '' @ str_of (r_message response)\<rparr>)\<rparr>)
            | Some NoCallback \<Rightarrow> ([request], \<lparr>during = s1, after = None\<rparr>)
            | Some (Throws err) \<Rightarrow>
                ([request],
                 returned (s1\<lparr>commentError :=
                               ''Comment failed: '' @ or_else (message err) ''Unknown error'',
                             submittingComment := False\<rparr>))))"

section \<open>Session persistence: App, Login, EcencyCallback and Navbar\<close>

text \<open>
  \<^verbatim>\<open>localStorage\<close> is a list of key/value pairs with one pair for a key. The session
  is the \<^verbatim>\<open>user\<close> of the context together with the storage.
\<close>

type_synonym storage = "(string \<times> string) list"

definition getItem :: "string \<Rightarrow> storage \<Rightarrow> string option" where
  "getItem k st = map_of st k"

definition setItem :: "string \<Rightarrow> string \<Rightarrow> storage \<Rightarrow> storage" where
  "setItem k v st = AList.update k v st"

definition removeItem :: "string \<Rightarrow> storage \<Rightarrow> storage" where
  "removeItem k st = AList.delete k st"

record session =
  current_user :: "string option"
  localStorage :: storage

text \<open>What a login handler does next: go to a route, or show an error.\<close>

datatype outcome = Navigate string | ShowError string | LeaveFor string | Waiting

text \<open>
  \<^verbatim>\<open>useState(localStorage.getItem('hivesocial_user') || null)\<close> when the application
  starts.
\<close>

definition App_start :: "storage \<Rightarrow> session" where
  "App_start st =
     \<lparr>current_user = (if truthy (getItem ''hivesocial_user'' st)
                       then getItem ''hivesocial_user'' st else None),
      localStorage = st\<rparr>"

text \<open>\<open>origin\<close> is \<^verbatim>\<open>location.state?.from || '/'\<close>.\<close>

definition handleDirectLogin :: "string \<Rightarrow> string \<Rightarrow> session \<Rightarrow> session \<times> outcome" where
  "handleDirectLogin username origin ss =
     (if username = []
      then (ss, ShowError ''Please enter a username'')
      else (ss\<lparr>localStorage := setItem ''hivesocial_user'' username (localStorage ss),
               current_user := Some username\<rparr>,
            Navigate origin))"

text \<open>
  The agent is asked to sign a memo; a throw from the request is caught. Without a
  callback nothing more happens.
\<close>

definition handleKeychainLogin ::
  "string \<Rightarrow> string \<Rightarrow> agent option \<Rightarrow> session \<Rightarrow> session \<times> outcome" where
  "handleKeychainLogin username origin hive_keychain ss =
     (if username = []
      then (ss, ShowError ''Please enter a username'')
      else case hive_keychain of
             None \<Rightarrow>
               (ss, ShowError ''Hive Keychain extension is not installed. Please install it and try again.'')
           | Some (Callback response) \<Rightarrow>
               if r_success response
               then (ss\<lparr>localStorage := setItem ''hivesocial_user'' username (localStorage ss),
                        current_user := Some username\<rparr>,
                     Navigate origin)
               else (ss, ShowError (''Login failed: '' @ str_of (r_message response)))
           | Some NoCallback \<Rightarrow> (ss, Waiting)
           | Some (Throws err) \<Rightarrow>
               (ss, ShowError (''Failed to connect to Hive Keychain: '' @ str_of (message err))))"

text \<open>
  The Ecency button stores the route to come back to and leaves for the Ecency page;
  \<open>callbackUrl\<close> is the encoded address of the callback route.
\<close>

definition handleEcencyLogin :: "string \<Rightarrow> string \<Rightarrow> session \<Rightarrow> session \<times> outcome" where
  "handleEcencyLogin origin callbackUrl ss =
     (ss\<lparr>localStorage := setItem ''hivesocial_redirect'' origin (localStorage ss)\<rparr>,
      LeaveFor (''https://ecency.com/hive-auth?redirect_url='' @ callbackUrl))"

text \<open>
  The callback route reads \<^verbatim>\<open>username\<close>, \<^verbatim>\<open>access_token\<close> and \<^verbatim>\<open>expires_in\<close> from
  the address. \<open>expiresIn\<close> is the numeric value of \<^verbatim>\<open>expires_in\<close>: an absent
  parameter counts as zero, and a text that is no number gives \<open>NaN\<close>. \<open>now\<close> is
  \<^verbatim>\<open>Date.now()\<close>.
\<close>

datatype js_number = Num nat | NaN

definition number_text :: "js_number \<Rightarrow> string" where
  "number_text n = (case n of Num k \<Rightarrow> string_of_nat k | NaN \<Rightarrow> ''NaN'')"

definition expiry :: "nat \<Rightarrow> js_number \<Rightarrow> js_number" where
  "expiry now expiresIn = (case expiresIn of Num k \<Rightarrow> Num (now + k * 1000) | NaN \<Rightarrow> NaN)"

definition EcencyCallback ::
  "string option \<Rightarrow> string option \<Rightarrow> js_number \<Rightarrow> nat \<Rightarrow> session \<Rightarrow> session \<times> outcome" where
  "EcencyCallback username accessToken expiresIn now ss =
     (if truthy username \<and> truthy accessToken
      then
        (let st1 = setItem ''hivesocial_user'' (the username) (localStorage ss);
             st2 = setItem ''hivesocial_token'' (the accessToken) st1;
             st3 = setItem ''hivesocial_token_expiry'' (number_text (expiry now expiresIn)) st2;
             redirectTo = or_else (getItem ''hivesocial_redirect'' st3) ''/''
         in (ss\<lparr>localStorage := removeItem ''hivesocial_redirect'' st3,
                current_user := username\<rparr>,
             Navigate redirectTo))
      else (ss, ShowError ''Authentication failed. Please try again.''))"

definition handleLogout :: "session \<Rightarrow> session" where
  "handleLogout ss =
     ss\<lparr>current_user := None,
        localStorage := removeItem ''hivesocial_user'' (localStorage ss)\<rparr>"

section \<open>Vocabulary of the properties\<close>

text \<open>
  The agent answers when it is not installed (nothing is asked of it) or when it calls
  the callback back.
\<close>

definition agent_answers :: "agent option \<Rightarrow> bool" where
  "agent_answers hive_keychain =
     (case hive_keychain of
        None \<Rightarrow> True
      | Some (Callback response) \<Rightarrow> True
      | Some NoCallback \<Rightarrow> False
      | Some (Throws e) \<Rightarrow> False)"

text \<open>
  A promise that resolved to a result object which, when it reports a failure, carries
  a non-empty error message.
\<close>

definition typed_result :: "result promise \<Rightarrow> bool" where
  "typed_result p =
     (case p of
        Resolved r \<Rightarrow> success r \<or> truthy (error r)
      | Rejected e \<Rightarrow> False
      | Pending \<Rightarrow> False)"

text \<open>A ledger that answers every call with the same follow count.\<close>

definition steady_ledger :: "string \<Rightarrow> string option list \<Rightarrow> js_error + nat" where
  "steady_ledger method params = Inr 12"

text \<open>A client whose broadcast is always confirmed, with the same receipt.\<close>

definition accepting_client :: "operation list \<Rightarrow> private_key \<Rightarrow> js_error + nat" where
  "accepting_client operations postingKey = Inr 1"

text \<open>A key parser that accepts the texts starting with the digit 5, and no other.\<close>

definition five_parser :: "string \<Rightarrow> js_error + private_key" where
  "five_parser text =
     (if take 1 text = ''5'' then Inr (PrivateKey text)
      else Inl (JsError (Some ''invalid private key'')))"

text \<open>No two hyphens stand side by side.\<close>

fun no_double_hyphen :: "string \<Rightarrow> bool" where
  "no_double_hyphen (a # b # cs) =
     ((a \<noteq> CHR ''-'' \<or> b \<noteq> CHR ''-'') \<and> no_double_hyphen (b # cs))"
| "no_double_hyphen cs = True"

text \<open>
  The slug as the specification words it: the title in lower case, without the
  characters that are neither word characters nor white space, with every maximal run
  of white space collapsed to one hyphen, and capped at 50 characters.
  \<open>spec_collapse\<close> replaces a run at once: it writes the hyphen and skips the rest of
  the run.
\<close>

function spec_collapse :: "string \<Rightarrow> string" where
  "spec_collapse [] = []"
| "spec_collapse (c # cs) =
     (if is_space c then CHR ''-'' # spec_collapse (dropWhile is_space cs)
      else c # spec_collapse cs)"
  by pat_completeness auto
termination
  by (relation "measure length") (auto simp add: length_dropWhile_le le_imp_less_Suc)

definition spec_slug :: "string \<Rightarrow> string" where
  "spec_slug t =
     take 50 (spec_collapse
                (filter (\<lambda>c. \<not> (\<not> is_word c \<and> \<not> is_space c)) (map lower_char t)))"

section \<open>Properties of the social helpers\<close>

subsection \<open>Vote weights\<close>

text \<open>
  \<^verbatim>\<open>likePost\<close> has no check on the weight. Asked for a vote of weight 20000, with
  the agent installed and accepting, it hands the agent a vote operation of weight 20000
  and reports success: no validation error, and the signing path is used.
\<close>

theorem likePost_weight_unchecked_counterexample:
  "(10000::int) < 20000 \<and>
   likePost (Some ()) (Some ''alice'') ''bob'' ''post-1'' (Some 20000)
       (Some (Callback \<lparr>r_success = True, r_message = None\<rparr>))
     = ([RequestBroadcast ''alice'' [VoteOp ''alice'' ''bob'' ''post-1'' 20000] ''posting''],
        Resolved \<lparr>success = True, error = None, simulated = None, permlink = None\<rparr>)"
  by (simp add: likePost_def likePost_try_def truthy_def keychain_promise_def)

text \<open>
  Claim C1, as the code has it. For every weight, called with a client and a non-empty
  user name and with the agent installed, \<^verbatim>\<open>likePost\<close> hands the agent one vote
  operation carrying exactly the voter, the author, the permlink and the weight it was
  given, and its result is what the agent answers. It resolves to an error result
  without any request to the agent exactly when the client or the user name is missing.
\<close>

theorem likePost_builds_vote_for_any_weight:
  "(client \<noteq> None \<and> u \<noteq> [] \<longrightarrow>
      likePost client (Some u) a p (Some w) (Some kc)
        = ([RequestBroadcast u [VoteOp u a p w] ''posting''],
           keychain_promise kc None ''Failed to vote with Keychain''))
   \<and> (client = None \<or> \<not> truthy username \<longrightarrow>
      likePost client username a p weight hive_keychain
        = ([], Resolved (failure ''Client or username not provided'')))"
  by (simp add: likePost_def likePost_try_def truthy_def)

text \<open>The same at a weight below the range, and at a missing user name.\<close>

theorem likePost_builds_vote_for_any_weight_witness:
  "likePost (Some ()) (Some ''alice'') ''bob'' ''post-1'' (Some (- 20000)) (Some NoCallback)
     = ([RequestBroadcast ''alice'' [VoteOp ''alice'' ''bob'' ''post-1'' (- 20000)] ''posting''],
        Pending)
   \<and> likePost (Some ()) None ''bob'' ''post-1'' (Some 1) None
     = ([],
        Resolved \<lparr>success = False, error = Some ''Client or username not provided'',
                  simulated = None, permlink = None\<rparr>)"
  using likePost_builds_vote_for_any_weight
    [of "Some ()" "''alice''" "''bob''" "''post-1''" "- 20000" NoCallback None "Some 1" None]
  by (simp add: truthy_def keychain_promise_def failure_def)

subsection \<open>Simulated success\<close>

text \<open>
  Without the agent and without a client, \<^verbatim>\<open>likePost\<close> does not report success: the
  guard on the client comes first.
\<close>

theorem simulated_needs_client_counterexample:
  "likePost (None :: unit option) (Some ''alice'') ''bob'' ''post-1'' None None
     = ([],
        Resolved \<lparr>success = False, error = Some ''Client or username not provided'',
                  simulated = None, permlink = None\<rparr>)"
  by (simp add: likePost_def failure_def)

text \<open>
  Claim C3, as the code has it. When the agent is not installed, each of the four write
  helpers, called with a client and a non-empty user name (and \<^verbatim>\<open>commentOnPost\<close>
  with a parent permlink), arms one timer (500, 800, 600 and 600 milliseconds) and
  resolves to a result with \<^verbatim>\<open>success: true\<close> and \<^verbatim>\<open>simulated: true\<close>. The timer is
  its only effect: nothing is sent to the agent or to the ledger.
\<close>

theorem simulated_success_without_agent:
  assumes "client \<noteq> None" and "u \<noteq> []"
  shows "likePost client (Some u) a p w None
           = ([SetTimeout 500],
              Resolved \<lparr>success = True, error = None, simulated = Some True, permlink = None\<rparr>)
       \<and> commentOnPost client (Some u) pa (Some pp) b opts now None
           = ([SetTimeout 800],
              Resolved \<lparr>success = True, error = None, simulated = Some True,
                        permlink = Some (reply_permlink pp now)\<rparr>)
       \<and> followUser client (Some u) f None
           = ([SetTimeout 600],
              Resolved \<lparr>success = True, error = None, simulated = Some True, permlink = None\<rparr>)
       \<and> unfollowUser client (Some u) f None
           = ([SetTimeout 600],
              Resolved \<lparr>success = True, error = None, simulated = Some True, permlink = None\<rparr>)"
  using assms
  by (simp add: likePost_def likePost_try_def commentOnPost_def commentOnPost_try_def
      followUser_def followUser_try_def unfollowUser_def unfollowUser_try_def truthy_def)

theorem simulated_success_without_agent_witness:
  "likePost (Some ()) (Some ''alice'') ''bob'' ''post-1'' None None
           = ([SetTimeout 500],
              Resolved \<lparr>success = True, error = None, simulated = Some True, permlink = None\<rparr>)
       \<and> commentOnPost (Some ()) (Some ''alice'') ''bob'' (Some ''Post-1'') ''hi'' [] 42 None
           = ([SetTimeout 800],
              Resolved \<lparr>success = True, error = None, simulated = Some True,
                        permlink = Some ''re-ost-1-42''\<rparr>)
       \<and> followUser (Some ()) (Some ''alice'') ''bob'' None
           = ([SetTimeout 600],
              Resolved \<lparr>success = True, error = None, simulated = Some True, permlink = None\<rparr>)
       \<and> unfollowUser (Some ()) (Some ''alice'') ''bob'' None
           = ([SetTimeout 600],
              Resolved \<lparr>success = True, error = None, simulated = Some True, permlink = None\<rparr>)"
proof -
  have c: "Some () \<noteq> None" by simp
  have u: "''alice'' \<noteq> []" by simp
  have n: "string_of_nat 42 = ''42''" by code_simp
  show ?thesis
    using simulated_success_without_agent [OF c u, of "''bob''" "''post-1''" None "''bob''"
        "''Post-1''" "''hi''" "[]" 42 "''bob''"]
    by (simp add: reply_permlink_def permlink_char_def n)
qed

subsection \<open>Results at the boundary\<close>

text \<open>
  An agent that is installed and never calls back leaves the promise of \<^verbatim>\<open>likePost\<close>
  pending: the helper does not resolve to a result object.
\<close>

theorem unanswered_agent_counterexample:
  "likePost (Some ()) (Some ''alice'') ''bob'' ''post-1'' None (Some NoCallback)
     = ([RequestBroadcast ''alice'' [VoteOp ''alice'' ''bob'' ''post-1'' 10000] ''posting''],
        Pending)"
  by (simp add: likePost_def likePost_try_def truthy_def keychain_promise_def)

lemma or_else_nonempty: "b \<noteq> [] \<Longrightarrow> or_else a b \<noteq> []"
  by (simp add: or_else_def split: option.splits)

lemma typed_keychain_promise:
  "fallback \<noteq> [] \<Longrightarrow> agent_answers (Some kc) \<Longrightarrow>
   typed_result (keychain_promise kc extra fallback)"
  by (cases kc) (simp_all add: agent_answers_def typed_result_def keychain_promise_def
      failure_def truthy_def or_else_def split: option.splits)

lemma typed_failure: "msg \<noteq> [] \<Longrightarrow> typed_result (Resolved (failure msg))"
  by (simp add: typed_result_def failure_def truthy_def)

lemma typed_success: "success r \<Longrightarrow> typed_result (Resolved r)"
  by (simp add: typed_result_def)

lemma typed_likePost:
  "agent_answers hk \<Longrightarrow> typed_result (snd (likePost client username a p w hk))"
  by (cases hk)
     (simp_all add: likePost_def likePost_try_def typed_failure typed_keychain_promise
        typed_success)

lemma typed_commentOnPost:
  "agent_answers hk \<Longrightarrow>
   typed_result (snd (commentOnPost client username pa pp b opts now hk))"
  by (cases hk; cases pp)
     (simp_all add: commentOnPost_def commentOnPost_try_def typed_failure
        typed_keychain_promise typed_success or_else_nonempty Let_def)

lemma typed_followUser:
  "agent_answers hk \<Longrightarrow> typed_result (snd (followUser client follower f hk))"
  by (cases hk)
     (simp_all add: followUser_def followUser_try_def typed_failure typed_keychain_promise
        typed_success)

lemma typed_unfollowUser:
  "agent_answers hk \<Longrightarrow> typed_result (snd (unfollowUser client follower f hk))"
  by (cases hk)
     (simp_all add: unfollowUser_def unfollowUser_try_def typed_failure typed_keychain_promise
        typed_success)

text \<open>
  Claim C8, as the code has it. Whenever the agent is absent or calls the callback
  back, and for every other input (absent client, absent or empty user name, absent
  parent permlink, an agent that reports failure with or without a message), each of
  \<^verbatim>\<open>likePost\<close>, \<^verbatim>\<open>commentOnPost\<close>, \<^verbatim>\<open>followUser\<close> and \<^verbatim>\<open>unfollowUser\<close> resolves to
  a result object, which carries a non-empty error message whenever its \<^verbatim>\<open>success\<close>
  is false.
\<close>

theorem helpers_resolve_when_agent_answers:
  assumes "agent_answers hive_keychain"
  shows "typed_result (snd (likePost client username a p w hive_keychain))
       \<and> typed_result (snd (commentOnPost client username pa pp b opts now hive_keychain))
       \<and> typed_result (snd (followUser client username f hive_keychain))
       \<and> typed_result (snd (unfollowUser client username f hive_keychain))"
  using assms
  by (simp add: typed_likePost typed_commentOnPost typed_followUser typed_unfollowUser)

theorem helpers_resolve_when_agent_answers_witness:
  "agent_answers (Some (Callback \<lparr>r_success = False, r_message = None\<rparr>))
   \<and> typed_result (snd (likePost (Some ()) (Some ''alice'') ''bob'' ''post-1'' None
        (Some (Callback \<lparr>r_success = False, r_message = None\<rparr>))))
   \<and> typed_result (snd (commentOnPost (Some ()) (Some ''alice'') ''bob'' None ''hi'' [] 42
        (Some (Callback \<lparr>r_success = False, r_message = None\<rparr>))))"
proof -
  have h: "agent_answers (Some (Callback \<lparr>r_success = False, r_message = None\<rparr>))"
    by (simp add: agent_answers_def)
  show ?thesis
    using h helpers_resolve_when_agent_answers [OF h, of "Some ()" "Some ''alice''" "''bob''"
        "''post-1''" None "''bob''" None "''hi''" "[]" 42 "''bob''"]
    by blast
qed

subsection \<open>The follow status\<close>

text \<open>
  Claim C10. When the ledger answers the follow-count call, the \<^verbatim>\<open>isFollowing\<close> that
  \<^verbatim>\<open>checkIfFollowing\<close> returns is the outcome of comparing the random draw with one
  half, whatever the follower, the followed account and the ledger's answer are; two
  calls with the same arguments and the same ledger differ when the draws are 0.25 and
  0.75. \<^verbatim>\<open>checkFollowStatus\<close> stores that flag in the component.
\<close>

theorem checkIfFollowing_is_random:
  assumes "call ''get_follow_count'' [follower] = Inr count"
  shows "snd (checkIfFollowing (Some call) follower following rnd)
           = Resolved \<lparr>fs_success = True, fs_error = None,
                       fs_isFollowing = Some (rnd > 0.5), fs_followCount = Some count\<rparr>
       \<and> snd (checkIfFollowing (Some call) follower following (1 / 4))
           \<noteq> snd (checkIfFollowing (Some call) follower following (3 / 4))
       \<and> after (snd (checkFollowStatus (Some call) (Some (User follower)) following rnd s))
           = Some (s\<lparr>loading := False, followError := [], isFollowing := rnd > 0.5\<rparr>)"
  using assms by (simp add: checkIfFollowing_def checkFollowStatus_def)

theorem checkIfFollowing_is_random_witness:
  "snd (checkIfFollowing (Some steady_ledger) (Some ''alice'') ''bob'' (1 / 4))
     = Resolved \<lparr>fs_success = True, fs_error = None,
                 fs_isFollowing = Some False, fs_followCount = Some 12\<rparr>
   \<and> snd (checkIfFollowing (Some steady_ledger) (Some ''alice'') ''bob'' (3 / 4))
     = Resolved \<lparr>fs_success = True, fs_error = None,
                 fs_isFollowing = Some True, fs_followCount = Some 12\<rparr>"
proof -
  have h: "steady_ledger ''get_follow_count'' [Some ''alice''] = Inr 12"
    by (simp add: steady_ledger_def)
  show ?thesis
    using h checkIfFollowing_is_random [of steady_ledger "Some ''alice''" 12 "''bob''" "1 / 4"]
      checkIfFollowing_is_random [of steady_ledger "Some ''alice''" 12 "''bob''" "3 / 4"]
    by simp
qed

section \<open>Properties of the vote and follow handlers\<close>

text \<open>
  \<^verbatim>\<open>handleVote\<close> applies nothing ahead of the result. With the vote flag unset and an
  agent that reports failure, the flag is unset while the vote is outstanding (only the
  in-progress flag is set), and it is unset afterwards, with the error stored.
\<close>

theorem no_speculative_vote_counterexample:
  "handleVote (Some ()) (Some (User (Some ''alice''))) True ''bob'' ''post-1''
       (Some (Callback \<lparr>r_success = True, r_message = None\<rparr>))
       \<lparr>isVoting = False, voteError = [], hasVoted = False\<rparr>
     = ([RequestBroadcast ''alice'' [VoteOp ''alice'' ''bob'' ''post-1'' 10000] ''posting''],
        \<lparr>during = \<lparr>isVoting = True, voteError = [], hasVoted = False\<rparr>,
         after = Some \<lparr>isVoting = False, voteError = [], hasVoted = True\<rparr>\<rparr>)"
  by (simp add: handleVote_def likePost_def likePost_try_def truthy_def keychain_promise_def)

lemma handleVote_during:
  "user \<noteq> None \<Longrightarrow> isKeychain \<Longrightarrow>
   during (snd (handleVote client user isKeychain a p hk s))
     = s\<lparr>isVoting := True, voteError := []\<rparr>"
  by (auto simp add: handleVote_def Let_def case_prod_beta)

lemma handleVote_after:
  "user \<noteq> None \<Longrightarrow> isKeychain \<Longrightarrow>
   snd (likePost client (name (the user)) a p None hk) = Resolved r \<Longrightarrow>
   after (snd (handleVote client user isKeychain a p hk s))
     = Some (if success r then s\<lparr>isVoting := False, voteError := [], hasVoted := True\<rparr>
             else s\<lparr>isVoting := False, voteError := or_else (error r) ''Failed to vote''\<rparr>)"
  by (auto simp add: handleVote_def Let_def case_prod_beta)

lemma handleFollowToggle_during:
  "user \<noteq> None \<Longrightarrow>
   during (snd (handleFollowToggle client user username hk s))
     = s\<lparr>processing := True, followError := []\<rparr>"
  by (auto simp add: handleFollowToggle_def Let_def case_prod_beta)

lemma handleFollowToggle_after:
  "user \<noteq> None \<Longrightarrow>
   snd (if isFollowing s then unfollowUser client (name (the user)) username hk
        else followUser client (name (the user)) username hk) = Resolved r \<Longrightarrow>
   after (snd (handleFollowToggle client user username hk s))
     = Some (if success r
             then s\<lparr>processing := False, followError := [], isFollowing := \<not> isFollowing s\<rparr>
             else s\<lparr>processing := False,
                    followError := or_else (error r)
                      (''Failed to '' @ (if isFollowing s then ''unfollow'' else ''follow'')
                       @ '' user'')\<rparr>)"
  by (auto simp add: handleFollowToggle_def Let_def case_prod_beta)

text \<open>
  Claim C2, as the code has it. For a signed-in user, a vote or follow intent leaves the
  view model as it was while the submission is outstanding: the vote flag and the follow
  flag keep their values. When the submission resolves with success the vote flag is set
  and the follow flag is toggled; when it resolves with failure the flag has its value
  from before the intent and an error message is stored.
\<close>

theorem view_model_changes_only_on_success:
  assumes "user \<noteq> None" and "isKeychain"
  shows "hasVoted (during (snd (handleVote client user isKeychain a p hk s))) = hasVoted s
       \<and> isFollowing (during (snd (handleFollowToggle client user username hk t)))
           = isFollowing t
       \<and> (\<forall>r. snd (likePost client (name (the user)) a p None hk) = Resolved r \<longrightarrow>
             (\<exists>s'. after (snd (handleVote client user isKeychain a p hk s)) = Some s'
                \<and> hasVoted s' = (success r \<or> hasVoted s)
                \<and> (\<not> success r \<longrightarrow> voteError s' \<noteq> [])))
       \<and> (\<forall>r. snd (if isFollowing t then unfollowUser client (name (the user)) username hk
                    else followUser client (name (the user)) username hk) = Resolved r \<longrightarrow>
             (\<exists>t'. after (snd (handleFollowToggle client user username hk t)) = Some t'
                \<and> isFollowing t' = (if success r then \<not> isFollowing t else isFollowing t)
                \<and> (\<not> success r \<longrightarrow> followError t' \<noteq> [])))"
proof -
  have ne: "\<And>x y. y \<noteq> [] \<Longrightarrow> or_else x y \<noteq> []"
    by (simp add: or_else_def split: option.splits)
  show ?thesis
    using assms
    by (simp add: handleVote_during handleVote_after handleFollowToggle_during
        handleFollowToggle_after ne)
qed

text \<open>
  The same for alice: a vote and an unfollow that the agent refuses.
\<close>

theorem view_model_changes_only_on_success_witness:
  "hasVoted (during (snd (handleVote (Some ()) (Some (User (Some ''alice''))) True
       ''bob'' ''post-1'' (Some (Callback \<lparr>r_success = False, r_message = None\<rparr>))
       \<lparr>isVoting = False, voteError = [], hasVoted = False\<rparr>))) = False
   \<and> (\<exists>s'. after (snd (handleVote (Some ()) (Some (User (Some ''alice''))) True
       ''bob'' ''post-1'' (Some (Callback \<lparr>r_success = False, r_message = None\<rparr>))
       \<lparr>isVoting = False, voteError = [], hasVoted = False\<rparr>)) = Some s'
        \<and> hasVoted s' = False \<and> voteError s' \<noteq> [])
   \<and> isFollowing (during (snd (handleFollowToggle (Some ()) (Some (User (Some ''alice'')))
       ''bob'' (Some (Callback \<lparr>r_success = False, r_message = None\<rparr>))
       \<lparr>isFollowing = True, loading = False, processing = False, followError = []\<rparr>))) = True
   \<and> (\<exists>t'. after (snd (handleFollowToggle (Some ()) (Some (User (Some ''alice'')))
       ''bob'' (Some (Callback \<lparr>r_success = False, r_message = None\<rparr>))
       \<lparr>isFollowing = True, loading = False, processing = False, followError = []\<rparr>)) = Some t'
        \<and> isFollowing t' = True \<and> followError t' \<noteq> [])"
proof -
  have u: "Some (User (Some ''alice'')) \<noteq> None" by simp
  have k: "True" by simp
  have lp: "snd (likePost (Some ()) (name (the (Some (User (Some ''alice''))))) ''bob''
                  ''post-1'' None (Some (Callback \<lparr>r_success = False, r_message = None\<rparr>)))
              = Resolved (failure ''Failed to vote with Keychain'')"
    by (simp add: likePost_def likePost_try_def truthy_def keychain_promise_def or_else_def)
  have uf: "snd (unfollowUser (Some ()) (name (the (Some (User (Some ''alice''))))) ''bob''
                  (Some (Callback \<lparr>r_success = False, r_message = None\<rparr>)))
              = Resolved (failure ''Failed to unfollow with Keychain'')"
    by (simp add: unfollowUser_def unfollowUser_try_def truthy_def keychain_promise_def
        or_else_def)
  show ?thesis
    using lp uf view_model_changes_only_on_success [OF u k, of "Some ()" "''bob''" "''post-1''"
        "Some (Callback \<lparr>r_success = False, r_message = None\<rparr>)"
        "\<lparr>isVoting = False, voteError = [], hasVoted = False\<rparr>" "''bob''"
        "\<lparr>isFollowing = True, loading = False, processing = False, followError = []\<rparr>"]
    by (simp add: failure_def)
qed

section \<open>Properties of generatePermlink\<close>

lemma space_not_word: "is_space c \<Longrightarrow> \<not> is_word c"
  by (auto simp add: is_space_def is_word_def is_alnum_def)

lemma hyphen_not_word: "\<not> is_word (CHR ''-'')"
  by (simp add: is_word_def is_alnum_def)

lemma lower_char_idem: "lower_char (lower_char c) = lower_char c"
  by (simp add: lower_char_def)

lemma hyphenate_chars:
  "c \<in> set (hyphenate b xs) \<Longrightarrow> c = CHR ''-'' \<or> (c \<in> set xs \<and> \<not> is_space c)"
  by (induction b xs rule: hyphenate.induct) (auto split: if_splits)

lemma hyphenate_words: "filter is_word (hyphenate b xs) = filter is_word xs"
  by (induction b xs rule: hyphenate.induct) (auto simp add: space_not_word hyphen_not_word)

lemma slug_chars:
  assumes "c \<in> set (take 50 (hyphenate False
              (filter (\<lambda>c. is_word c \<or> is_space c) (toLowerCase t))))"
  shows "c = CHR ''-'' \<or> (is_word c \<and> lower_char c = c)"
proof -
  from assms have "c \<in> set (hyphenate False
              (filter (\<lambda>c. is_word c \<or> is_space c) (toLowerCase t)))"
    by (rule in_set_takeD)
  then have "c = CHR ''-'' \<or>
      (c \<in> set (filter (\<lambda>c. is_word c \<or> is_space c) (toLowerCase t)) \<and> \<not> is_space c)"
    by (rule hyphenate_chars)
  then show ?thesis
    by (auto simp add: toLowerCase_def lower_char_idem)
qed

lemma slug_words:
  "prefix (filter is_word (take 50 (hyphenate False
              (filter (\<lambda>c. is_word c \<or> is_space c) (toLowerCase t)))))
          (filter is_word (toLowerCase t))"
proof -
  have "prefix (filter is_word (take 50 (hyphenate False
              (filter (\<lambda>c. is_word c \<or> is_space c) (toLowerCase t)))))
          (filter is_word (hyphenate False
              (filter (\<lambda>c. is_word c \<or> is_space c) (toLowerCase t))))"
    by (intro filter_mono_prefix take_is_prefix)
  also have "filter is_word (hyphenate False
              (filter (\<lambda>c. is_word c \<or> is_space c) (toLowerCase t)))
           = filter is_word (toLowerCase t)"
    by (simp add: hyphenate_words) (metis (mono_tags, lifting) filter_cong)
  finally show ?thesis .
qed

lemma hyphenate_single:
  "CHR ''-'' \<notin> set xs \<Longrightarrow>
   no_double_hyphen (hyphenate b xs)
   \<and> (b \<longrightarrow> hyphenate b xs = [] \<or> hd (hyphenate b xs) \<noteq> CHR ''-'')"
proof (induction b xs rule: hyphenate.induct)
  case (1 in_run)
  then show ?case by simp
next
  case (2 in_run c cs)
  show ?case
  proof (cases "is_space c")
    case True
    with 2 have ih: "no_double_hyphen (hyphenate True cs)"
      "hyphenate True cs = [] \<or> hd (hyphenate True cs) \<noteq> CHR ''-''"
      by auto
    show ?thesis
    proof (cases "hyphenate True cs")
      case Nil
      with True show ?thesis by simp
    next
      case (Cons d ds)
      with True ih show ?thesis by auto
    qed
  next
    case False
    with 2 have ih: "no_double_hyphen (hyphenate False cs)" and c: "c \<noteq> CHR ''-''"
      by auto
    show ?thesis
    proof (cases "hyphenate False cs")
      case Nil
      with False c show ?thesis by simp
    next
      case (Cons d ds)
      with False ih c show ?thesis by auto
    qed
  qed
qed

lemma no_double_hyphen_take: "no_double_hyphen xs \<Longrightarrow> no_double_hyphen (take n xs)"
proof (induction xs arbitrary: n rule: no_double_hyphen.induct)
  case (1 a b cs)
  show ?case
  proof (cases n)
    case 0
    then show ?thesis by simp
  next
    case (Suc m)
    note n = this
    show ?thesis
    proof (cases m)
      case 0
      with n show ?thesis by simp
    next
      case (Suc k)
      from 1 have "no_double_hyphen (take m (b # cs))" by simp
      with 1 n Suc show ?thesis by simp
    qed
  qed
qed (simp_all add: take_Cons')

lemma slug_single:
  "no_double_hyphen (take 50 (hyphenate False
      (filter (\<lambda>c. is_word c \<or> is_space c) (toLowerCase t))))"
proof -
  have "CHR ''-'' \<notin> set (filter (\<lambda>c. is_word c \<or> is_space c) (toLowerCase t))"
    by (simp add: is_word_def is_alnum_def is_space_def)
  then show ?thesis
    by (intro no_double_hyphen_take) (simp add: hyphenate_single)
qed

lemma hyphenate_collapse:
  "hyphenate False xs = spec_collapse xs
   \<and> hyphenate True xs = spec_collapse (dropWhile is_space xs)"
  by (induction xs) simp_all

lemma spec_slug_code:
  "spec_slug t
     = take 50 (hyphenate False (filter (\<lambda>c. is_word c \<or> is_space c) (toLowerCase t)))"
  by (simp add: spec_slug_def hyphenate_collapse toLowerCase_def)

lemma hyphenate_no_space:
  "\<forall>c \<in> set xs. \<not> is_space c \<Longrightarrow> hyphenate b xs = xs"
  by (induction b xs rule: hyphenate.induct) simp_all

lemma spec_slug_fixed:
  assumes "\<forall>c \<in> set t. is_word c \<and> lower_char c = c" and "length t \<le> 50"
  shows "spec_slug t = t"
proof -
  from assms(1) have l: "toLowerCase t = t"
    by (simp add: toLowerCase_def map_idI)
  from assms(1) have f: "filter (\<lambda>c. is_word c \<or> is_space c) t = t"
    by (simp add: filter_id_conv)
  from assms(1) have "\<forall>c \<in> set t. \<not> is_space c"
    by (auto dest: space_not_word)
  then have h: "hyphenate False t = t" by (rule hyphenate_no_space)
  from assms(2) show ?thesis by (simp add: spec_slug_code l f h)
qed

text \<open>
  Claim C7. The identifier is exactly the slug of the title as the specification words
  it (\<open>spec_slug\<close>: lower case, the characters that are neither word characters nor
  white space stripped, every run of white space collapsed to one hyphen, capped at 50
  characters), then a hyphen, the first eight characters of the time text stripped to
  letters and digits and lower-cased, a hyphen, and six characters of the random text.
  That slug has at most 50 characters, each a hyphen or a lower-case word character, with
  no two hyphens side by side; its word characters are an initial part of those of the
  lower-cased title; and a title of at most 50 lower-case word characters is its own
  slug. The title alone does not fix the identifier: at the same title and the same
  time, the random texts \<^verbatim>\<open>0.abc\<close> and \<^verbatim>\<open>0.abd\<close> give two identifiers. (The account
  is no input of the helper.)
\<close>

theorem generatePermlink_shape:
  "generatePermlink t isoNow rand36
     = spec_slug t @ ''-'' @ take 8 (toLowerCase (filter is_alnum isoNow))
       @ ''-'' @ take 6 (drop 2 rand36)
   \<and> length (spec_slug t) \<le> 50
   \<and> (\<forall>c \<in> set (spec_slug t). c = CHR ''-'' \<or> (is_word c \<and> lower_char c = c))
   \<and> no_double_hyphen (spec_slug t)
   \<and> prefix (filter is_word (spec_slug t)) (filter is_word (toLowerCase t))
   \<and> ((\<forall>c \<in> set t. is_word c \<and> lower_char c = c) \<and> length t \<le> 50 \<longrightarrow> spec_slug t = t)
   \<and> generatePermlink t isoNow ''0.abc'' \<noteq> generatePermlink t isoNow ''0.abd''"
proof (intro conjI ballI impI)
  show "generatePermlink t isoNow rand36
      = spec_slug t @ ''-'' @ take 8 (toLowerCase (filter is_alnum isoNow))
        @ ''-'' @ take 6 (drop 2 rand36)"
    by (simp add: generatePermlink_def Let_def spec_slug_code)
  show "length (spec_slug t) \<le> 50"
    by (simp add: spec_slug_code)
  show "c = CHR ''-'' \<or> (is_word c \<and> lower_char c = c)" if "c \<in> set (spec_slug t)" for c
    using that unfolding spec_slug_code by (rule slug_chars)
  show "no_double_hyphen (spec_slug t)"
    unfolding spec_slug_code by (rule slug_single)
  show "prefix (filter is_word (spec_slug t)) (filter is_word (toLowerCase t))"
    unfolding spec_slug_code by (rule slug_words)
  show "spec_slug t = t"
    if "(\<forall>c \<in> set t. is_word c \<and> lower_char c = c) \<and> length t \<le> 50"
    using that by (simp add: spec_slug_fixed)
  show "generatePermlink t isoNow ''0.abc'' \<noteq> generatePermlink t isoNow ''0.abd''"
    by (simp add: generatePermlink_def Let_def)
qed

text \<open>
  For the title \<^verbatim>\<open>Hello,  World!\<close> on 3 November 2026 the identifier is
  \<^verbatim>\<open>hello-world-20261103-4fzyo8\<close>.
\<close>

lemma generatePermlink_example:
  "generatePermlink ''Hello,  World!'' ''2026-11-03T12:34:56.789Z'' ''0.4fzyo82mvyr''
     = ''hello-world-20261103-4fzyo8''"
  by (simp add: generatePermlink_def Let_def toLowerCase_def lower_char_def is_word_def
      is_alnum_def is_space_def)

text \<open>
  The theorem at that title, and at the title \<^verbatim>\<open>hello_world1\<close>, which is its own slug.
\<close>

theorem generatePermlink_shape_witness:
  "generatePermlink ''Hello,  World!'' ''2026-11-03T12:34:56.789Z'' ''0.4fzyo82mvyr''
     = ''hello-world-20261103-4fzyo8''
   \<and> generatePermlink ''hello_world1'' ''2026-11-03T12:34:56.789Z'' ''0.4fzyo82mvyr''
     = ''hello_world1-20261103-4fzyo8''
   \<and> generatePermlink ''Hello,  World!'' ''2026-11-03T12:34:56.789Z'' ''0.abc''
       \<noteq> generatePermlink ''Hello,  World!'' ''2026-11-03T12:34:56.789Z'' ''0.abd''"
proof -
  have tm: "take 8 (toLowerCase (filter is_alnum ''2026-11-03T12:34:56.789Z'')) = ''20261103''"
    by (simp add: toLowerCase_def lower_char_def is_alnum_def)
  have sl: "spec_slug ''Hello,  World!'' = ''hello-world''"
    by (simp add: spec_slug_def lower_char_def is_word_def is_alnum_def is_space_def)
  have own: "(\<forall>c \<in> set ''hello_world1''. is_word c \<and> lower_char c = c)
               \<and> length ''hello_world1'' \<le> 50"
    by (simp add: lower_char_def is_word_def is_alnum_def)
  have a: "generatePermlink ''Hello,  World!'' ''2026-11-03T12:34:56.789Z'' ''0.4fzyo82mvyr''
             = ''hello-world-20261103-4fzyo8''"
    and d: "generatePermlink ''Hello,  World!'' ''2026-11-03T12:34:56.789Z'' ''0.abc''
             \<noteq> generatePermlink ''Hello,  World!'' ''2026-11-03T12:34:56.789Z'' ''0.abd''"
    using generatePermlink_shape
      [of "''Hello,  World!''" "''2026-11-03T12:34:56.789Z''" "''0.4fzyo82mvyr''"]
    by (simp_all only: tm sl) simp_all
  from own generatePermlink_shape
      [of "''hello_world1''" "''2026-11-03T12:34:56.789Z''" "''0.4fzyo82mvyr''"]
  have s: "spec_slug ''hello_world1'' = ''hello_world1''"
    by blast
  have b: "generatePermlink ''hello_world1'' ''2026-11-03T12:34:56.789Z'' ''0.4fzyo82mvyr''
             = ''hello_world1-20261103-4fzyo8''"
    using generatePermlink_shape
      [of "''hello_world1''" "''2026-11-03T12:34:56.789Z''" "''0.4fzyo82mvyr''"]
    by (simp only: tm s) simp
  from a b d show ?thesis by (intro conjI)
qed

section \<open>Properties of the publishing handlers\<close>

subsection \<open>Blank texts and the tag list\<close>

lemma trim_empty_iff: "trim s = [] \<longleftrightarrow> (\<forall>c \<in> set s. is_space c)"
proof
  assume "trim s = []"
  then have a: "\<forall>c \<in> set (dropWhile is_space s). is_space c"
    by (simp add: trim_def dropWhile_eq_Nil_conv)
  have "dropWhile is_space s = []"
  proof (rule ccontr)
    assume ne: "dropWhile is_space s \<noteq> []"
    then have "\<not> is_space (hd (dropWhile is_space s))" by (rule hd_dropWhile)
    moreover from ne have "hd (dropWhile is_space s) \<in> set (dropWhile is_space s)" by simp
    ultimately show False using a by blast
  qed
  then show "\<forall>c \<in> set s. is_space c" by (simp add: dropWhile_eq_Nil_conv)
next
  assume "\<forall>c \<in> set s. is_space c"
  then show "trim s = []" by (auto simp add: trim_def dest: set_dropWhileD)
qed

lemma lower_char_space: "is_space (lower_char c) \<longleftrightarrow> is_space c"
  by (simp add: lower_char_def is_space_def)

lemma split_piece:
  "c \<in> set s \<Longrightarrow> c \<noteq> sep \<Longrightarrow> \<exists>w \<in> set (split sep s). c \<in> set w"
  by (induction s) (auto split: list.splits)

lemma tagArray_nonempty:
  assumes "trim t \<noteq> []"
  shows "tagArray_of t \<noteq> []"
proof -
  from assms obtain c where c: "c \<in> set t" "\<not> is_space c"
    by (auto simp add: trim_empty_iff)
  then have l: "lower_char c \<in> set (toLowerCase t)" "\<not> is_space (lower_char c)"
    by (simp_all add: toLowerCase_def lower_char_space)
  from l(2) have "lower_char c \<noteq> CHR '' ''" by (auto simp add: is_space_def)
  with l(1) obtain w where w: "w \<in> set (split (CHR '' '') (toLowerCase t))"
      "lower_char c \<in> set w"
    using split_piece by blast
  from w(2) l(2) have "trim w \<noteq> []" by (auto simp add: trim_empty_iff)
  with w(1) have "trim w \<in> set (tagArray_of t)" by (simp add: tagArray_of_def)
  then show ?thesis by auto
qed

subsection \<open>The key is parsed before anything is sent\<close>

lemma submit_keychain_sends_nothing:
  "SendOperations ops key \<notin> set (fst (submit_keychain kc u pl ta s1))"
  by (cases kc) (simp_all add: submit_keychain_def Let_def)

lemma submit_direct_send:
  assumes "SendOperations ops key \<in> set (fst (submit_direct client localClient pa pk u pl ta s1))"
  shows "length ops = 1 \<and> (\<exists>k. pa = Some k \<and> pk k = Inr key)"
  using assms
  by (auto simp add: submit_direct_def Let_def truthy_def
      split: option.splits sum.splits if_splits)

lemma handleSubmit_send:
  assumes "SendOperations ops key
             \<in> set (fst (handleSubmit user client localClient hk pa pk isoNow rand36 s))"
  shows "length ops = 1 \<and> (\<exists>k. pa = Some k \<and> pk k = Inr key)"
proof -
  from assms have "SendOperations ops key
      \<in> set (fst (submit_direct client localClient pa pk (the user)
                     (generatePermlink (title s) isoNow rand36) (tagArray_of (tags s))
                     (s\<lparr>submitError := [], isSubmitting := True\<rparr>)))"
    by (simp add: handleSubmit_def Let_def submit_keychain_sends_nothing split: if_splits)
  then show ?thesis by (rule submit_direct_send)
qed

lemma handleDirectPost_send:
  assumes "SendOperations ops key
             \<in> set (fst (handleDirectPost user dc pa pk now timer s))"
  shows "length ops = 1 \<and> (\<exists>k. pa = Some k \<and> pk k = Inr key)"
  using assms
  by (auto simp add: handleDirectPost_def resetFormState_def Let_def truthy_def
      split: option.splits sum.splits if_splits)

lemma handleSubmit_direct:
  assumes "truthy user" "trim (title s) \<noteq> []" "trim (body s) \<noteq> []" "trim (tags s) \<noteq> []"
    and "postingMethod s = ''direct''"
  shows "handleSubmit user client localClient hk pa pk isoNow rand36 s
     = submit_direct client localClient pa pk (the user)
         (generatePermlink (title s) isoNow rand36) (tagArray_of (tags s))
         (s\<lparr>submitError := [], isSubmitting := True\<rparr>)"
  using assms tagArray_nonempty [of "tags s"]
  by (simp add: handleSubmit_def Let_def)

lemma handleSubmit_keychain:
  assumes "truthy user" "trim (title s) \<noteq> []" "trim (body s) \<noteq> []" "trim (tags s) \<noteq> []"
    and "postingMethod s = ''keychain''"
  shows "handleSubmit user client localClient (Some kc) pa pk isoNow rand36 s
     = submit_keychain kc (the user)
         (generatePermlink (title s) isoNow rand36) (tagArray_of (tags s))
         (s\<lparr>submitError := [], isSubmitting := True\<rparr>)"
  using assms tagArray_nonempty [of "tags s"]
  by (simp add: handleSubmit_def Let_def)

text \<open>
  Claim C5. Whatever the inputs, \<^verbatim>\<open>handleSubmit\<close> and \<^verbatim>\<open>handleDirectPost\<close> call
  \<^verbatim>\<open>sendOperations\<close> only with a batch of one operation and with the key object the
  parser returned for the text typed into the prompt: nothing is broadcast unless the
  parser accepted the key. On the direct path of \<^verbatim>\<open>handleSubmit\<close>, a key text the
  parser rejects ends the submission at once: the prompt is the only effect, the
  submitting flag is cleared and the message for an invalid key is stored (the form in
  which the code reports the rejection). A key text the parser accepts is followed by
  the broadcast of one operation with that key.
\<close>

theorem key_checked_before_broadcast:
  "(\<forall>ops key.
      SendOperations ops key
        \<in> set (fst (handleSubmit user client localClient hk promptAnswer PrivateKey_from
                       isoNow rand36 s))
      \<longrightarrow> length ops = 1 \<and> (\<exists>k. promptAnswer = Some k \<and> PrivateKey_from k = Inr key))
   \<and> (\<forall>ops key.
      SendOperations ops key
        \<in> set (fst (handleDirectPost user directClient promptAnswer PrivateKey_from now timer s))
      \<longrightarrow> length ops = 1 \<and> (\<exists>k. promptAnswer = Some k \<and> PrivateKey_from k = Inr key))
   \<and> (truthy user \<and> trim (title s) \<noteq> [] \<and> trim (body s) \<noteq> [] \<and> trim (tags s) \<noteq> []
       \<and> postingMethod s = ''direct'' \<and> client = Some c \<and> k \<noteq> []
       \<and> PrivateKey_from k = Inl e
      \<longrightarrow> handleSubmit user client localClient hk (Some k) PrivateKey_from isoNow rand36 s
           = ([Prompt],
              returned (s\<lparr>submitError :=
                            ''Invalid private key format. Please make sure you are using the correct private posting key.'',
                          isSubmitting := False\<rparr>)))
   \<and> (truthy user \<and> trim (title s) \<noteq> [] \<and> trim (body s) \<noteq> [] \<and> trim (tags s) \<noteq> []
       \<and> postingMethod s = ''direct'' \<and> client = Some c \<and> k \<noteq> []
       \<and> PrivateKey_from k = Inr key
      \<longrightarrow> (\<exists>op rest.
             fst (handleSubmit user client localClient hk (Some k) PrivateKey_from isoNow rand36 s)
               = Prompt # SendOperations [op] key # rest))"
proof (intro conjI allI impI)
  fix ops key
  assume "SendOperations ops key
        \<in> set (fst (handleSubmit user client localClient hk promptAnswer PrivateKey_from
                       isoNow rand36 s))"
  then show "length ops = 1" and "\<exists>k. promptAnswer = Some k \<and> PrivateKey_from k = Inr key"
    using handleSubmit_send by blast+
next
  fix ops key
  assume "SendOperations ops key
        \<in> set (fst (handleDirectPost user directClient promptAnswer PrivateKey_from now timer s))"
  then show "length ops = 1" and "\<exists>k. promptAnswer = Some k \<and> PrivateKey_from k = Inr key"
    using handleDirectPost_send by blast+
next
  assume "truthy user \<and> trim (title s) \<noteq> [] \<and> trim (body s) \<noteq> [] \<and> trim (tags s) \<noteq> []
       \<and> postingMethod s = ''direct'' \<and> client = Some c \<and> k \<noteq> []
       \<and> PrivateKey_from k = Inl e"
  then show "handleSubmit user client localClient hk (Some k) PrivateKey_from isoNow rand36 s
           = ([Prompt],
              returned (s\<lparr>submitError :=
                            ''Invalid private key format. Please make sure you are using the correct private posting key.'',
                          isSubmitting := False\<rparr>))"
    by (simp add: handleSubmit_direct submit_direct_def truthy_def)
next
  assume "truthy user \<and> trim (title s) \<noteq> [] \<and> trim (body s) \<noteq> [] \<and> trim (tags s) \<noteq> []
       \<and> postingMethod s = ''direct'' \<and> client = Some c \<and> k \<noteq> []
       \<and> PrivateKey_from k = Inr key"
  then show "\<exists>op rest.
             fst (handleSubmit user client localClient hk (Some k) PrivateKey_from isoNow rand36 s)
               = Prompt # SendOperations [op] key # rest"
    by (cases "c [CommentOp [] (first_tag (tagArray_of (tags s))) (the user)
                    (generatePermlink (title s) isoNow rand36) (title s) (body s)
                    (jsonMetadata (tagArray_of (tags s)) (imageUrl s))] key")
       (simp_all add: handleSubmit_direct submit_direct_def truthy_def Let_def)
qed

text \<open>
  For alice, with a parser that accepts the texts starting with 5: the key
  \<^verbatim>\<open>hunter2\<close> is refused before anything is sent, and \<^verbatim>\<open>5Jabc\<close> is used to
  broadcast one operation.
\<close>

theorem key_checked_before_broadcast_witness:
  "handleSubmit (Some ''alice'') (Some accepting_client) None None (Some ''hunter2'')
       five_parser ''2026-11-03T12:34:56.789Z'' ''0.4fzyo82mvyr''
       \<lparr>title = ''Hello World'', body = ''text'', tags = ''intro'', imageUrl = [],
        isSubmitting = False, submitError = [], successMessage = [],
        postingMethod = ''direct'', timeoutId = None\<rparr>
     = ([Prompt],
        \<lparr>during =
           \<lparr>title = ''Hello World'', body = ''text'', tags = ''intro'', imageUrl = [],
            isSubmitting = False,
            submitError = ''Invalid private key format. Please make sure you are using the correct private posting key.'',
            successMessage = [], postingMethod = ''direct'', timeoutId = None\<rparr>,
         after = Some
           \<lparr>title = ''Hello World'', body = ''text'', tags = ''intro'', imageUrl = [],
            isSubmitting = False,
            submitError = ''Invalid private key format. Please make sure you are using the correct private posting key.'',
            successMessage = [], postingMethod = ''direct'', timeoutId = None\<rparr>\<rparr>)
   \<and> (\<exists>op rest.
        fst (handleSubmit (Some ''alice'') (Some accepting_client) None None (Some ''5Jabc'')
               five_parser ''2026-11-03T12:34:56.789Z'' ''0.4fzyo82mvyr''
               \<lparr>title = ''Hello World'', body = ''text'', tags = ''intro'', imageUrl = [],
                isSubmitting = False, submitError = [], successMessage = [],
                postingMethod = ''direct'', timeoutId = None\<rparr>)
          = Prompt # SendOperations [op] (PrivateKey ''5Jabc'') # rest)"
proof -
  have t: "trim ''Hello World'' \<noteq> []" "trim ''text'' \<noteq> []" "trim ''intro'' \<noteq> []"
    by (simp_all add: trim_def is_space_def)
  have p: "five_parser ''hunter2'' = Inl (JsError (Some ''invalid private key''))"
    "five_parser ''5Jabc'' = Inr (PrivateKey ''5Jabc'')"
    by (simp_all add: five_parser_def)
  show ?thesis
    using t p
      key_checked_before_broadcast [of "Some ''alice''" "Some accepting_client" None None None
        five_parser "''2026-11-03T12:34:56.789Z''" "''0.4fzyo82mvyr''"
        "\<lparr>title = ''Hello World'', body = ''text'', tags = ''intro'', imageUrl = [],
          isSubmitting = False, submitError = [], successMessage = [],
          postingMethod = ''direct'', timeoutId = None\<rparr>"
        accepting_client 0 0 accepting_client "''hunter2''"
        "JsError (Some ''invalid private key'')" "PrivateKey ''5Jabc''"]
      key_checked_before_broadcast [of "Some ''alice''" "Some accepting_client" None None None
        five_parser "''2026-11-03T12:34:56.789Z''" "''0.4fzyo82mvyr''"
        "\<lparr>title = ''Hello World'', body = ''text'', tags = ''intro'', imageUrl = [],
          isSubmitting = False, submitError = [], successMessage = [],
          postingMethod = ''direct'', timeoutId = None\<rparr>"
        accepting_client 0 0 accepting_client "''5Jabc''"
        "JsError (Some ''invalid private key'')" "PrivateKey ''5Jabc''"]
    by (simp add: truthy_def returned_def)
qed

subsection \<open>Validation of a publish request\<close>

text \<open>
  \<^verbatim>\<open>handleDirectPost\<close> does not look at the tags. With an empty tag text, a title, a
  body and an accepted key it broadcasts the post, under its own fixed tag list.
\<close>

theorem direct_post_ignores_tags_counterexample:
  "handleDirectPost (Some ''alice'') accepting_client (Some ''5Jabc'') five_parser 7 3
       \<lparr>title = ''Hello World'', body = ''text'', tags = [], imageUrl = [],
        isSubmitting = False, submitError = [], successMessage = [],
        postingMethod = ''direct'', timeoutId = None\<rparr>
     = ([SetTimeout 30000, Prompt,
         SendOperations
           [CommentOp [] ''hive-174695'' ''alice'' ''post-7'' ''Hello World'' ''text''
              (JObj [(''tags'', JArr [JStr ''hive-174695'', JStr ''hivesocial'']),
                     (''app'', JStr ''hivesocial/1.0.0''),
                     (''format'', JStr ''markdown''),
                     (''image'', JArr [])])]
           (PrivateKey ''5Jabc''),
         ClearTimeout 3, SetTimeout 2000],
        \<lparr>during =
           \<lparr>title = ''Hello World'', body = ''text'', tags = [], imageUrl = [],
            isSubmitting = True, submitError = [], successMessage = [],
            postingMethod = ''direct'', timeoutId = Some 3\<rparr>,
         after = Some
           \<lparr>title = ''Hello World'', body = ''text'', tags = [], imageUrl = [],
            isSubmitting = False, submitError = [],
            successMessage = ''Post published successfully!'',
            postingMethod = ''direct'', timeoutId = None\<rparr>\<rparr>)"
proof -
  have n: "string_of_nat 7 = ''7''" by code_simp
  show ?thesis
    by (simp add: handleDirectPost_def resetFormState_def Let_def truthy_def trim_def
        is_space_def five_parser_def accepting_client_def jsonMetadata_def image_list_def n)
qed

lemma handleSubmit_blank:
  assumes "trim (title s) = [] \<or> trim (body s) = [] \<or> trim (tags s) = []"
  shows "fst (handleSubmit user client localClient hk pa pk isoNow rand36 s) = []
       \<and> (\<exists>msg. msg \<noteq> []
             \<and> snd (handleSubmit user client localClient hk pa pk isoNow rand36 s)
                 = returned (s\<lparr>submitError := msg\<rparr>))"
  using assms by (auto simp add: handleSubmit_def Let_def)

lemma handleDirectPost_blank:
  assumes "trim (title s) = [] \<or> trim (body s) = []"
  shows "fst (handleDirectPost user dc pa pk now timer s) = []
       \<and> (\<exists>msg. msg \<noteq> []
             \<and> snd (handleDirectPost user dc pa pk now timer s)
                 = returned (s\<lparr>submitError := msg\<rparr>))"
  using assms by (auto simp add: handleDirectPost_def Let_def)

lemma handleDirectPost_sends:
  assumes "truthy user" "trim (title s) \<noteq> []" "trim (body s) \<noteq> []" "k \<noteq> []"
    "pk k = Inr key"
  shows "\<exists>before rest.
           fst (handleDirectPost user dc (Some k) pk now timer s)
             = before @ SendOperations
                 [CommentOp [] ''hive-174695'' (the user) (''post-'' @ string_of_nat now)
                    (title s) (body s)
                    (jsonMetadata [''hive-174695'', ''hivesocial''] (imageUrl s))] key # rest"
proof (cases "dc [CommentOp [] ''hive-174695'' (the user) (''post-'' @ string_of_nat now)
                    (title s) (body s)
                    (jsonMetadata [''hive-174695'', ''hivesocial''] (imageUrl s))] key")
  case (Inl err)
  with assms have "fst (handleDirectPost user dc (Some k) pk now timer s)
      = (fst (resetFormState (timeoutId s) s) @ [SetTimeout 30000, Prompt])
        @ SendOperations
            [CommentOp [] ''hive-174695'' (the user) (''post-'' @ string_of_nat now)
               (title s) (body s)
               (jsonMetadata [''hive-174695'', ''hivesocial''] (imageUrl s))] key
          # [ClearTimeout timer]"
    by (simp add: handleDirectPost_def Let_def truthy_def case_prod_beta)
  then show ?thesis by blast
next
  case (Inr confirmation)
  with assms have "fst (handleDirectPost user dc (Some k) pk now timer s)
      = (fst (resetFormState (timeoutId s) s) @ [SetTimeout 30000, Prompt])
        @ SendOperations
            [CommentOp [] ''hive-174695'' (the user) (''post-'' @ string_of_nat now)
               (title s) (body s)
               (jsonMetadata [''hive-174695'', ''hivesocial''] (imageUrl s))] key
          # [ClearTimeout timer, SetTimeout 2000]"
    by (simp add: handleDirectPost_def Let_def truthy_def case_prod_beta)
  then show ?thesis by blast
qed

lemma submit_keychain_request:
  "\<exists>rest. fst (submit_keychain kc u pl ta s1)
     = AgentRequest ''requestPost'' [u, pl, first_tag ta, title s1, body s1, ''posting'']
         (jsonMetadata ta (imageUrl s1)) # rest"
  by (cases kc) (simp_all add: submit_keychain_def Let_def)

text \<open>
  Claim C6, as the code has it. \<^verbatim>\<open>handleSubmit\<close> refuses a title, a body or a tag text
  that is empty or all white space: it stores an error message and has no effect on the
  outside. With a signed-in user and all three texts non-blank, the tag list is not
  empty, and the request to the agent (or, on the direct path with an accepted key, the
  one operation broadcast) carries the permlink of \<^verbatim>\<open>generatePermlink\<close> and the
  metadata made of the parsed tag list, the application \<^verbatim>\<open>hivesocial/1.0.0\<close>, the
  format \<^verbatim>\<open>markdown\<close> and the image list, which holds the image address when there
  is one. \<^verbatim>\<open>handleDirectPost\<close> refuses a blank title or body in the same way; it
  does not read the tags, and with an accepted key it broadcasts one operation under
  the permlink \<^verbatim>\<open>post-\<close> followed by the time, with the fixed tag list
  \<^verbatim>\<open>hive-174695\<close>, \<^verbatim>\<open>hivesocial\<close>.
\<close>

theorem publish_validation:
  "(trim (title s) = [] \<or> trim (body s) = [] \<or> trim (tags s) = [] \<longrightarrow>
      fst (handleSubmit user client localClient hk promptAnswer PrivateKey_from isoNow rand36 s)
        = []
      \<and> (\<exists>msg. msg \<noteq> []
            \<and> snd (handleSubmit user client localClient hk promptAnswer PrivateKey_from
                     isoNow rand36 s)
                = returned (s\<lparr>submitError := msg\<rparr>)))
   \<and> (truthy user \<and> trim (title s) \<noteq> [] \<and> trim (body s) \<noteq> [] \<and> trim (tags s) \<noteq> []
       \<and> postingMethod s = ''keychain'' \<longrightarrow>
      tagArray_of (tags s) \<noteq> []
      \<and> (\<exists>rest.
            fst (handleSubmit user client localClient (Some kc) promptAnswer PrivateKey_from
                   isoNow rand36 s)
              = AgentRequest ''requestPost''
                  [the user, generatePermlink (title s) isoNow rand36,
                   first_tag (tagArray_of (tags s)), title s, body s, ''posting'']
                  (JObj [(''tags'', JArr (map JStr (tagArray_of (tags s)))),
                         (''app'', JStr ''hivesocial/1.0.0''),
                         (''format'', JStr ''markdown''),
                         (''image'', image_list (imageUrl s))])
                # rest))
   \<and> (truthy user \<and> trim (title s) \<noteq> [] \<and> trim (body s) \<noteq> [] \<and> trim (tags s) \<noteq> []
       \<and> postingMethod s = ''direct'' \<and> client = Some c \<and> k \<noteq> []
       \<and> PrivateKey_from k = Inr key \<longrightarrow>
      (\<exists>rest.
         fst (handleSubmit user client localClient hk (Some k) PrivateKey_from isoNow rand36 s)
           = Prompt
             # SendOperations
                 [CommentOp [] (first_tag (tagArray_of (tags s))) (the user)
                    (generatePermlink (title s) isoNow rand36) (title s) (body s)
                    (JObj [(''tags'', JArr (map JStr (tagArray_of (tags s)))),
                           (''app'', JStr ''hivesocial/1.0.0''),
                           (''format'', JStr ''markdown''),
                           (''image'', image_list (imageUrl s))])] key
             # rest))
   \<and> (trim (title s) = [] \<or> trim (body s) = [] \<longrightarrow>
      fst (handleDirectPost user directClient promptAnswer PrivateKey_from now timer s) = []
      \<and> (\<exists>msg. msg \<noteq> []
            \<and> snd (handleDirectPost user directClient promptAnswer PrivateKey_from now timer s)
                = returned (s\<lparr>submitError := msg\<rparr>)))
   \<and> (truthy user \<and> trim (title s) \<noteq> [] \<and> trim (body s) \<noteq> [] \<and> k \<noteq> []
       \<and> PrivateKey_from k = Inr key \<longrightarrow>
      (\<exists>before rest.
         fst (handleDirectPost user directClient (Some k) PrivateKey_from now timer s)
           = before
             @ SendOperations
                 [CommentOp [] ''hive-174695'' (the user) (''post-'' @ string_of_nat now)
                    (title s) (body s)
                    (JObj [(''tags'', JArr [JStr ''hive-174695'', JStr ''hivesocial'']),
                           (''app'', JStr ''hivesocial/1.0.0''),
                           (''format'', JStr ''markdown''),
                           (''image'', image_list (imageUrl s))])] key
               # rest))"
proof (intro conjI impI)
  assume a: "trim (title s) = [] \<or> trim (body s) = [] \<or> trim (tags s) = []"
  from handleSubmit_blank [OF a]
  show "fst (handleSubmit user client localClient hk promptAnswer PrivateKey_from isoNow rand36 s)
        = []"
    and "\<exists>msg. msg \<noteq> []
            \<and> snd (handleSubmit user client localClient hk promptAnswer PrivateKey_from
                     isoNow rand36 s)
                = returned (s\<lparr>submitError := msg\<rparr>)"
    by blast+
next
  assume a: "truthy user \<and> trim (title s) \<noteq> [] \<and> trim (body s) \<noteq> [] \<and> trim (tags s) \<noteq> []
       \<and> postingMethod s = ''keychain''"
  then show "tagArray_of (tags s) \<noteq> []" by (simp add: tagArray_nonempty)
  from a have "handleSubmit user client localClient (Some kc) promptAnswer PrivateKey_from
                 isoNow rand36 s
     = submit_keychain kc (the user)
         (generatePermlink (title s) isoNow rand36) (tagArray_of (tags s))
         (s\<lparr>submitError := [], isSubmitting := True\<rparr>)"
    by (simp add: handleSubmit_keychain)
  then show "\<exists>rest.
            fst (handleSubmit user client localClient (Some kc) promptAnswer PrivateKey_from
                   isoNow rand36 s)
              = AgentRequest ''requestPost''
                  [the user, generatePermlink (title s) isoNow rand36,
                   first_tag (tagArray_of (tags s)), title s, body s, ''posting'']
                  (JObj [(''tags'', JArr (map JStr (tagArray_of (tags s)))),
                         (''app'', JStr ''hivesocial/1.0.0''),
                         (''format'', JStr ''markdown''),
                         (''image'', image_list (imageUrl s))])
                # rest"
    using submit_keychain_request [of kc "the user" "generatePermlink (title s) isoNow rand36"
        "tagArray_of (tags s)" "s\<lparr>submitError := [], isSubmitting := True\<rparr>"]
    by (simp add: jsonMetadata_def)
next
  assume a: "truthy user \<and> trim (title s) \<noteq> [] \<and> trim (body s) \<noteq> [] \<and> trim (tags s) \<noteq> []
       \<and> postingMethod s = ''direct'' \<and> client = Some c \<and> k \<noteq> []
       \<and> PrivateKey_from k = Inr key"
  then show "\<exists>rest.
         fst (handleSubmit user client localClient hk (Some k) PrivateKey_from isoNow rand36 s)
           = Prompt
             # SendOperations
                 [CommentOp [] (first_tag (tagArray_of (tags s))) (the user)
                    (generatePermlink (title s) isoNow rand36) (title s) (body s)
                    (JObj [(''tags'', JArr (map JStr (tagArray_of (tags s)))),
                           (''app'', JStr ''hivesocial/1.0.0''),
                           (''format'', JStr ''markdown''),
                           (''image'', image_list (imageUrl s))])] key
             # rest"
    by (cases "c [CommentOp [] (first_tag (tagArray_of (tags s))) (the user)
                    (generatePermlink (title s) isoNow rand36) (title s) (body s)
                    (jsonMetadata (tagArray_of (tags s)) (imageUrl s))] key")
       (simp_all add: handleSubmit_direct submit_direct_def truthy_def Let_def
          jsonMetadata_def)
next
  assume a: "trim (title s) = [] \<or> trim (body s) = []"
  from handleDirectPost_blank [OF a]
  show "fst (handleDirectPost user directClient promptAnswer PrivateKey_from now timer s) = []"
    and "\<exists>msg. msg \<noteq> []
            \<and> snd (handleDirectPost user directClient promptAnswer PrivateKey_from now timer s)
                = returned (s\<lparr>submitError := msg\<rparr>)"
    by blast+
next
  assume a: "truthy user \<and> trim (title s) \<noteq> [] \<and> trim (body s) \<noteq> [] \<and> k \<noteq> []
       \<and> PrivateKey_from k = Inr key"
  then show "\<exists>before rest.
         fst (handleDirectPost user directClient (Some k) PrivateKey_from now timer s)
           = before
             @ SendOperations
                 [CommentOp [] ''hive-174695'' (the user) (''post-'' @ string_of_nat now)
                    (title s) (body s)
                    (JObj [(''tags'', JArr [JStr ''hive-174695'', JStr ''hivesocial'']),
                           (''app'', JStr ''hivesocial/1.0.0''),
                           (''format'', JStr ''markdown''),
                           (''image'', image_list (imageUrl s))])] key
               # rest"
    using handleDirectPost_sends [of user s k PrivateKey_from key directClient now timer]
    by (simp add: jsonMetadata_def)
qed

lemma tagArray_example: "tagArray_of ''Intro hive'' = [''intro'', ''hive'']"
  by (simp add: tagArray_of_def toLowerCase_def lower_char_def trim_def is_space_def)

text \<open>
  A title of one space is refused; the title \<^verbatim>\<open>Hello,  World!\<close> with the tags
  \<^verbatim>\<open>Intro hive\<close> goes to the agent, or to the ledger with an accepted key, with the
  tag list \<^verbatim>\<open>intro\<close>, \<^verbatim>\<open>hive\<close>; the other handler sends it with its fixed tags.
\<close>

theorem publish_validation_witness:
  "fst (handleSubmit (Some ''alice'') (Some accepting_client) None None None five_parser
          ''2026-11-03T12:34:56.789Z'' ''0.4fzyo82mvyr''
          \<lparr>title = '' '', body = ''text'', tags = ''Intro hive'', imageUrl = [],
           isSubmitting = False, submitError = [], successMessage = [],
           postingMethod = ''keychain'', timeoutId = None\<rparr>) = []
   \<and> (\<exists>rest.
        fst (handleSubmit (Some ''alice'') (Some accepting_client) None (Some NoCallback) None
               five_parser ''2026-11-03T12:34:56.789Z'' ''0.4fzyo82mvyr''
               \<lparr>title = ''Hello,  World!'', body = ''text'', tags = ''Intro hive'',
                imageUrl = [], isSubmitting = False, submitError = [], successMessage = [],
                postingMethod = ''keychain'', timeoutId = None\<rparr>)
          = AgentRequest ''requestPost''
              [''alice'', ''hello-world-20261103-4fzyo8'', ''intro'', ''Hello,  World!'',
               ''text'', ''posting'']
              (JObj [(''tags'', JArr [JStr ''intro'', JStr ''hive'']),
                     (''app'', JStr ''hivesocial/1.0.0''),
                     (''format'', JStr ''markdown''),
                     (''image'', JArr [])])
            # rest)
   \<and> (\<exists>rest.
        fst (handleSubmit (Some ''alice'') (Some accepting_client) None None (Some ''5Jabc'')
               five_parser ''2026-11-03T12:34:56.789Z'' ''0.4fzyo82mvyr''
               \<lparr>title = ''Hello,  World!'', body = ''text'', tags = ''Intro hive'',
                imageUrl = ''pic.png'', isSubmitting = False, submitError = [],
                successMessage = [], postingMethod = ''direct'', timeoutId = None\<rparr>)
          = Prompt
            # SendOperations
                [CommentOp [] ''intro'' ''alice'' ''hello-world-20261103-4fzyo8''
                   ''Hello,  World!'' ''text''
                   (JObj [(''tags'', JArr [JStr ''intro'', JStr ''hive'']),
                          (''app'', JStr ''hivesocial/1.0.0''),
                          (''format'', JStr ''markdown''),
                          (''image'', JArr [JStr ''pic.png''])])]
                (PrivateKey ''5Jabc'')
            # rest)
   \<and> (\<exists>before rest.
        fst (handleDirectPost (Some ''alice'') accepting_client (Some ''5Jabc'') five_parser 7 3
               \<lparr>title = ''Hello,  World!'', body = ''text'', tags = ''Intro hive'',
                imageUrl = ''pic.png'', isSubmitting = False, submitError = [],
                successMessage = [], postingMethod = ''direct'', timeoutId = None\<rparr>)
          = before
            @ SendOperations
                [CommentOp [] ''hive-174695'' ''alice'' ''post-7'' ''Hello,  World!'' ''text''
                   (JObj [(''tags'', JArr [JStr ''hive-174695'', JStr ''hivesocial'']),
                          (''app'', JStr ''hivesocial/1.0.0''),
                          (''format'', JStr ''markdown''),
                          (''image'', JArr [JStr ''pic.png''])])]
                (PrivateKey ''5Jabc'')
              # rest)"
proof -
  have t: "trim '' '' = []" "trim ''Hello,  World!'' \<noteq> []" "trim ''text'' \<noteq> []"
    "trim ''Intro hive'' \<noteq> []"
    by (simp_all add: trim_def is_space_def)
  have p: "five_parser ''5Jabc'' = Inr (PrivateKey ''5Jabc'')"
    by (simp add: five_parser_def)
  have n: "string_of_nat 7 = ''7''" by code_simp
  show ?thesis
    using t p
      publish_validation [of
        "\<lparr>title = '' '', body = ''text'', tags = ''Intro hive'', imageUrl = [],
          isSubmitting = False, submitError = [], successMessage = [],
          postingMethod = ''keychain'', timeoutId = None\<rparr>"
        "Some ''alice''" "Some accepting_client" None None None five_parser
        "''2026-11-03T12:34:56.789Z''" "''0.4fzyo82mvyr''" NoCallback accepting_client
        "''5Jabc''" "PrivateKey ''5Jabc''" accepting_client 7 3]
      publish_validation [of
        "\<lparr>title = ''Hello,  World!'', body = ''text'', tags = ''Intro hive'', imageUrl = [],
          isSubmitting = False, submitError = [], successMessage = [],
          postingMethod = ''keychain'', timeoutId = None\<rparr>"
        "Some ''alice''" "Some accepting_client" None None None five_parser
        "''2026-11-03T12:34:56.789Z''" "''0.4fzyo82mvyr''" NoCallback accepting_client
        "''5Jabc''" "PrivateKey ''5Jabc''" accepting_client 7 3]
      publish_validation [of
        "\<lparr>title = ''Hello,  World!'', body = ''text'', tags = ''Intro hive'',
          imageUrl = ''pic.png'', isSubmitting = False, submitError = [],
          successMessage = [], postingMethod = ''direct'', timeoutId = None\<rparr>"
        "Some ''alice''" "Some accepting_client" None None None five_parser
        "''2026-11-03T12:34:56.789Z''" "''0.4fzyo82mvyr''" NoCallback accepting_client
        "''5Jabc''" "PrivateKey ''5Jabc''" accepting_client 7 3]
    by (simp add: truthy_def tagArray_example generatePermlink_example first_tag_def
        or_else_def image_list_def n)
qed

subsection \<open>Waiting for the agent\<close>

text \<open>
  An agent that never calls back leaves \<^verbatim>\<open>handleSubmit\<close> submitting for ever: the
  request is the only effect, no timer is armed, and no later state exists.
\<close>

theorem agent_post_never_times_out_counterexample:
  "handleSubmit (Some ''alice'') (Some accepting_client) None (Some NoCallback) None five_parser
       ''2026-11-03T12:34:56.789Z'' ''0.4fzyo82mvyr''
       \<lparr>title = ''Hello,  World!'', body = ''text'', tags = ''Intro hive'', imageUrl = [],
        isSubmitting = False, submitError = [], successMessage = [],
        postingMethod = ''keychain'', timeoutId = None\<rparr>
     = ([AgentRequest ''requestPost''
           [''alice'', ''hello-world-20261103-4fzyo8'', ''intro'', ''Hello,  World!'',
            ''text'', ''posting'']
           (JObj [(''tags'', JArr [JStr ''intro'', JStr ''hive'']),
                  (''app'', JStr ''hivesocial/1.0.0''),
                  (''format'', JStr ''markdown''),
                  (''image'', JArr [])])],
        \<lparr>during =
           \<lparr>title = ''Hello,  World!'', body = ''text'', tags = ''Intro hive'', imageUrl = [],
            isSubmitting = True, submitError = [], successMessage = [],
            postingMethod = ''keychain'', timeoutId = None\<rparr>,
         after = None\<rparr>)"
proof -
  have t: "trim ''Hello,  World!'' \<noteq> []" "trim ''text'' \<noteq> []" "trim ''Intro hive'' \<noteq> []"
    by (simp_all add: trim_def is_space_def)
  show ?thesis
    using t
    by (simp add: handleSubmit_def Let_def truthy_def tagArray_example
        generatePermlink_example submit_keychain_def first_tag_def or_else_def
        jsonMetadata_def image_list_def)
qed

lemma handleComment_agent:
  assumes "trim (commentBody s) \<noteq> []" "truthy user" "isKeychain"
  shows "handleComment user isKeychain author plink (Some NoCallback) now isoNow s
      = ([AgentRequest ''requestComment''
            [the user, plink, author, reply_permlink plink now, [], commentBody s]
            (JObj [(''app'', JStr ''hivesocial/1.0.0''), (''format'', JStr ''markdown'')])],
         \<lparr>during = s\<lparr>submittingComment := True, commentError := []\<rparr>, after = None\<rparr>)"
    and "\<exists>st. after (snd (handleComment user isKeychain author plink
                   (Some (Callback response)) now isoNow s)) = Some st
            \<and> \<not> submittingComment st
            \<and> (\<not> r_success response \<longrightarrow> commentError st \<noteq> [])"
  using assms by (simp_all add: handleComment_def Let_def)

text \<open>
  Claim C4, as the code has it. For a signed-in user, a valid post sent through the
  agent and a non-blank comment sent through the agent make one request to the agent
  and arm no timer: when the agent never calls back, the submitting flag stays set and
  there is no later state. When the agent calls back, the submitting flag is cleared,
  and a response that reports failure leaves an error message.
\<close>

theorem agent_submission_waits_for_callback:
  assumes "truthy user"
  shows
    "(trim (title s) \<noteq> [] \<and> trim (body s) \<noteq> [] \<and> trim (tags s) \<noteq> []
        \<and> postingMethod s = ''keychain'' \<longrightarrow>
       (\<exists>request.
          handleSubmit user client localClient (Some NoCallback) promptAnswer PrivateKey_from
             isoNow rand36 s
            = ([AgentRequest ''requestPost'' request
                  (jsonMetadata (tagArray_of (tags s)) (imageUrl s))],
               \<lparr>during = s\<lparr>submitError := [], isSubmitting := True\<rparr>, after = None\<rparr>))
       \<and> (\<exists>st. after (snd (handleSubmit user client localClient (Some (Callback response))
                              promptAnswer PrivateKey_from isoNow rand36 s)) = Some st
              \<and> \<not> isSubmitting st
              \<and> (\<not> r_success response \<longrightarrow> submitError st \<noteq> [])))
     \<and> (trim (commentBody v) \<noteq> [] \<and> isKeychain \<longrightarrow>
       (\<exists>request.
          handleComment user isKeychain author plink (Some NoCallback) now isoNow v
            = ([AgentRequest ''requestComment'' request
                  (JObj [(''app'', JStr ''hivesocial/1.0.0''), (''format'', JStr ''markdown'')])],
               \<lparr>during = v\<lparr>submittingComment := True, commentError := []\<rparr>, after = None\<rparr>))
       \<and> (\<exists>st. after (snd (handleComment user isKeychain author plink
                              (Some (Callback response)) now isoNow v)) = Some st
              \<and> \<not> submittingComment st
              \<and> (\<not> r_success response \<longrightarrow> commentError st \<noteq> [])))"
proof (intro conjI impI)
  assume a: "trim (title s) \<noteq> [] \<and> trim (body s) \<noteq> [] \<and> trim (tags s) \<noteq> []
        \<and> postingMethod s = ''keychain''"
  with assms show "\<exists>request.
          handleSubmit user client localClient (Some NoCallback) promptAnswer PrivateKey_from
             isoNow rand36 s
            = ([AgentRequest ''requestPost'' request
                  (jsonMetadata (tagArray_of (tags s)) (imageUrl s))],
               \<lparr>during = s\<lparr>submitError := [], isSubmitting := True\<rparr>, after = None\<rparr>)"
    by (simp add: handleSubmit_keychain submit_keychain_def Let_def)
  from a assms show "\<exists>st. after (snd (handleSubmit user client localClient
                              (Some (Callback response))
                              promptAnswer PrivateKey_from isoNow rand36 s)) = Some st
              \<and> \<not> isSubmitting st
              \<and> (\<not> r_success response \<longrightarrow> submitError st \<noteq> [])"
    by (simp add: handleSubmit_keychain submit_keychain_def Let_def publish_failed_def)
next
  assume a: "trim (commentBody v) \<noteq> [] \<and> isKeychain"
  with assms show "\<exists>request.
          handleComment user isKeychain author plink (Some NoCallback) now isoNow v
            = ([AgentRequest ''requestComment'' request
                  (JObj [(''app'', JStr ''hivesocial/1.0.0''), (''format'', JStr ''markdown'')])],
               \<lparr>during = v\<lparr>submittingComment := True, commentError := []\<rparr>, after = None\<rparr>)"
    by (simp add: handleComment_agent(1))
  from a assms show "\<exists>st. after (snd (handleComment user isKeychain author plink
                              (Some (Callback response)) now isoNow v)) = Some st
              \<and> \<not> submittingComment st
              \<and> (\<not> r_success response \<longrightarrow> commentError st \<noteq> [])"
    by (simp add: handleComment_agent(2))
qed

text \<open>
  The same for a post and a comment of alice.
\<close>

theorem agent_submission_waits_for_callback_witness:
  "(\<exists>request.
      handleSubmit (Some ''alice'') (Some accepting_client) None (Some NoCallback) None
         five_parser ''2026-11-03T12:34:56.789Z'' ''0.4fzyo82mvyr''
         \<lparr>title = ''Hello,  World!'', body = ''text'', tags = ''Intro hive'', imageUrl = [],
          isSubmitting = False, submitError = [], successMessage = [],
          postingMethod = ''keychain'', timeoutId = None\<rparr>
        = ([AgentRequest ''requestPost'' request
              (JObj [(''tags'', JArr [JStr ''intro'', JStr ''hive'']),
                     (''app'', JStr ''hivesocial/1.0.0''),
                     (''format'', JStr ''markdown''),
                     (''image'', JArr [])])],
           \<lparr>during =
              \<lparr>title = ''Hello,  World!'', body = ''text'', tags = ''Intro hive'',
               imageUrl = [], isSubmitting = True, submitError = [], successMessage = [],
               postingMethod = ''keychain'', timeoutId = None\<rparr>,
            after = None\<rparr>))
   \<and> (\<exists>request.
      handleComment (Some ''alice'') True ''bob'' ''post-1'' (Some NoCallback) 42
         ''2026-11-03T12:34:56.789Z''
         \<lparr>commentBody = ''nice'', submittingComment = False, commentError = [],
          comments = []\<rparr>
        = ([AgentRequest ''requestComment'' request
              (JObj [(''app'', JStr ''hivesocial/1.0.0''), (''format'', JStr ''markdown'')])],
           \<lparr>during =
              \<lparr>commentBody = ''nice'', submittingComment = True, commentError = [],
               comments = []\<rparr>,
            after = None\<rparr>))"
proof -
  have u: "truthy (Some ''alice'')" by (simp add: truthy_def)
  have t: "trim ''Hello,  World!'' \<noteq> []" "trim ''text'' \<noteq> []" "trim ''Intro hive'' \<noteq> []"
    "trim ''nice'' \<noteq> []"
    by (simp_all add: trim_def is_space_def)
  show ?thesis
    using t
      agent_submission_waits_for_callback [OF u, of
        "\<lparr>title = ''Hello,  World!'', body = ''text'', tags = ''Intro hive'', imageUrl = [],
          isSubmitting = False, submitError = [], successMessage = [],
          postingMethod = ''keychain'', timeoutId = None\<rparr>"
        "Some accepting_client" None None five_parser
        "''2026-11-03T12:34:56.789Z''" "''0.4fzyo82mvyr''"
        "\<lparr>r_success = False, r_message = None\<rparr>"
        "\<lparr>commentBody = ''nice'', submittingComment = False, commentError = [],
          comments = []\<rparr>"
        True "''bob''" "''post-1''" 42]
    by (simp add: tagArray_example jsonMetadata_def image_list_def)
qed

section \<open>Properties of the stored session\<close>

text \<open>
  After a login through the Ecency callback on an empty storage, a logout leaves the
  access token and its expiry time in the storage.
\<close>

theorem token_survives_logout_counterexample:
  "localStorage
     (handleLogout
        (fst (EcencyCallback (Some ''alice'') (Some ''tok123'') (Num 2) 5
                \<lparr>current_user = None, localStorage = []\<rparr>)))
     = [(''hivesocial_token'', ''tok123''), (''hivesocial_token_expiry'', ''2005'')]"
proof -
  have n: "string_of_nat 2005 = ''2005''" by code_simp
  show ?thesis
    by (simp add: handleLogout_def EcencyCallback_def truthy_def setItem_def removeItem_def
        getItem_def Let_def number_text_def expiry_def n or_else_def)
qed

lemma getItem_setItem:
  "getItem k (setItem k' v st) = (if k = k' then Some v else getItem k st)"
  by (simp add: getItem_def setItem_def update_conv')

lemma getItem_removeItem:
  "getItem k (removeItem k' st) = (if k = k' then None else getItem k st)"
  by (simp add: getItem_def removeItem_def delete_conv')

text \<open>
  Claim C9, as the code has it. The account name is stored under the key
  \<^verbatim>\<open>hivesocial_user\<close>. The login with a user name and the login through the agent
  write that field and leave every other key as it was, and the application, started on
  the storage they leave, restores the account. The Ecency callback writes that field
  and also the access token and its expiry time. The logout removes the account name
  from the storage and from the context, and the application started afterwards has no
  account.
\<close>

theorem session_persistence:
  "(username \<noteq> [] \<longrightarrow>
      getItem ''hivesocial_user'' (localStorage (fst (handleDirectLogin username origin ss)))
        = Some username
      \<and> (\<forall>k. k \<noteq> ''hivesocial_user'' \<longrightarrow>
            getItem k (localStorage (fst (handleDirectLogin username origin ss)))
              = getItem k (localStorage ss))
      \<and> current_user (App_start (localStorage (fst (handleDirectLogin username origin ss))))
        = Some username)
   \<and> (username \<noteq> [] \<and> r_success response \<longrightarrow>
      getItem ''hivesocial_user''
          (localStorage (fst (handleKeychainLogin username origin (Some (Callback response)) ss)))
        = Some username
      \<and> (\<forall>k. k \<noteq> ''hivesocial_user'' \<longrightarrow>
            getItem k (localStorage
                (fst (handleKeychainLogin username origin (Some (Callback response)) ss)))
              = getItem k (localStorage ss)))
   \<and> (username \<noteq> [] \<and> token \<noteq> [] \<longrightarrow>
      getItem ''hivesocial_user''
          (localStorage (fst (EcencyCallback (Some username) (Some token) expiresIn now ss)))
        = Some username
      \<and> getItem ''hivesocial_token''
          (localStorage (fst (EcencyCallback (Some username) (Some token) expiresIn now ss)))
        = Some token
      \<and> getItem ''hivesocial_token_expiry''
          (localStorage (fst (EcencyCallback (Some username) (Some token) expiresIn now ss)))
        = Some (number_text (expiry now expiresIn)))
   \<and> getItem ''hivesocial_user'' (localStorage (handleLogout ss)) = None
   \<and> current_user (handleLogout ss) = None
   \<and> current_user (App_start (localStorage (handleLogout ss))) = None"
  by (simp add: handleDirectLogin_def handleKeychainLogin_def EcencyCallback_def
      handleLogout_def App_start_def getItem_setItem getItem_removeItem truthy_def Let_def)

text \<open>
  The three logins of alice on an empty storage.
\<close>

theorem session_persistence_witness:
  "localStorage (fst (handleDirectLogin ''alice'' ''/'' \<lparr>current_user = None, localStorage = []\<rparr>))
     = [(''hivesocial_user'', ''alice'')]
   \<and> getItem ''hivesocial_user''
       (localStorage (fst (handleKeychainLogin ''alice'' ''/''
          (Some (Callback \<lparr>r_success = True, r_message = None\<rparr>))
          \<lparr>current_user = None, localStorage = []\<rparr>))) = Some ''alice''
   \<and> getItem ''hivesocial_token''
       (localStorage (fst (EcencyCallback (Some ''alice'') (Some ''tok123'') (Num 2) 5
          \<lparr>current_user = None, localStorage = []\<rparr>))) = Some ''tok123''"
  using session_persistence [of "''alice''" "''/''" "\<lparr>current_user = None, localStorage = []\<rparr>"
      "\<lparr>r_success = True, r_message = None\<rparr>" "''tok123''" "Num 2" 5]
  by (simp add: handleDirectLogin_def setItem_def)

end
